theory Spec2Isabelle
  imports Main
begin

section \<open>Python text and values\<close>

text \<open>
  The server of \<^verbatim>\<open>src/src/easy_mcp/server.py\<close> works on Python \<^verbatim>\<open>str\<close> values and on
  the values \<^verbatim>\<open>json.loads\<close> produces. A \<^verbatim>\<open>str\<close> is modelled as a HOL \<^typ>\<open>string\<close>: each
  \<^typ>\<open>char\<close> is one code point below 256 (ASCII and Latin-1), which is what the fixed
  protocol texts of the server use; code points above 255 are outside the model.
  Floating point numbers are outside the model as well.
\<close>

definition CR :: char where
  "CR = CHR 0x0D"

definition LF :: char where
  "LF = CHR 0x0A"

definition CRLF :: string where
  "CRLF = [CR, LF]"

definition DQUOTE :: char where
  "DQUOTE = CHR 0x22"

definition SQUOTE :: char where
  "SQUOTE = CHR 0x27"

definition BSLASH :: char where
  "BSLASH = CHR 0x5C"

text \<open>
  The values of \<^verbatim>\<open>json.loads\<close>: \<^verbatim>\<open>None\<close>, \<^verbatim>\<open>bool\<close>, \<^verbatim>\<open>int\<close>, \<^verbatim>\<open>str\<close>, \<^verbatim>\<open>list\<close> and
  \<^verbatim>\<open>dict\<close> with \<^verbatim>\<open>str\<close> keys. A \<^verbatim>\<open>dict\<close> is its items in insertion order.
\<close>

datatype json =
    JNull
  | JBool bool
  | JInt int
  | JStr string
  | JArr "json list"
  | JObj "(string \<times> json) list"

datatype pyerr =
    AttributeError
  | TypeError
  | ValueError
  | OSError

subsection \<open>Decimal and hexadecimal digits\<close>

definition digit_char :: "nat \<Rightarrow> char" where
  "digit_char d = ''0123456789'' ! d"

fun str_nat :: "nat \<Rightarrow> string" where
  "str_nat n = (if n < 10 then [digit_char n] else str_nat (n div 10) @ [digit_char (n mod 10)])"

declare str_nat.simps [simp del]

text \<open>\<^verbatim>\<open>str(i)\<close> for an \<^verbatim>\<open>int\<close>.\<close>

definition str_int :: "int \<Rightarrow> string" where
  "str_int i = (if i < 0 then CHR ''-'' # str_nat (nat (- i)) else str_nat (nat i))"

definition hex_digit :: "nat \<Rightarrow> char" where
  "hex_digit d = ''0123456789abcdef'' ! d"

definition hex2 :: "nat \<Rightarrow> string" where
  "hex2 n = [hex_digit (n div 16), hex_digit (n mod 16)]"

fun join_comma :: "string list \<Rightarrow> string" where
  "join_comma [] = []"
| "join_comma [x] = x"
| "join_comma (x # y # ys) = x @ '', '' @ join_comma (y # ys)"

subsection \<open>\<^verbatim>\<open>json.dumps\<close> with its default options\<close>

text \<open>
  \<^verbatim>\<open>json.dumps(obj)\<close>: separators \<^verbatim>\<open>", "\<close> and \<^verbatim>\<open>": "\<close>, no indentation, and
  \<^verbatim>\<open>ensure_ascii=True\<close>: in a string, backslash, the double quote and every character
  outside \<^verbatim>\<open>' '..'~'\<close> is escaped.
\<close>

definition json_escape_char :: "char \<Rightarrow> string" where
  "json_escape_char c =
     (let n = (of_char c :: nat) in
      if c = BSLASH then [BSLASH, BSLASH]
      else if c = DQUOTE then [BSLASH, DQUOTE]
      else if n = 8 then [BSLASH, CHR ''b'']
      else if n = 12 then [BSLASH, CHR ''f'']
      else if n = 10 then [BSLASH, CHR ''n'']
      else if n = 13 then [BSLASH, CHR ''r'']
      else if n = 9 then [BSLASH, CHR ''t'']
      else if 32 \<le> n \<and> n \<le> 126 then [c]
      else [BSLASH, CHR ''u'', CHR ''0'', CHR ''0''] @ hex2 n)"

definition json_string :: "string \<Rightarrow> string" where
  "json_string s = DQUOTE # concat (map json_escape_char s) @ [DQUOTE]"

fun json_dumps :: "json \<Rightarrow> string" where
  "json_dumps JNull = ''null''"
| "json_dumps (JBool b) = (if b then ''true'' else ''false'')"
| "json_dumps (JInt i) = str_int i"
| "json_dumps (JStr s) = json_string s"
| "json_dumps (JArr xs) = ''['' @ join_comma (map json_dumps xs) @ '']''"
| "json_dumps (JObj kvs) =
     ''{'' @ join_comma (map (\<lambda>kv. json_string (fst kv) @ '': '' @ json_dumps (snd kv)) kvs) @ ''}''"

subsection \<open>\<^verbatim>\<open>str()\<close> and \<^verbatim>\<open>repr()\<close>, as an f-string formats a value\<close>

text \<open>
  \<^verbatim>\<open>repr\<close> of a \<^verbatim>\<open>str\<close>: single quotes, unless the text holds a single quote and no
  double quote; the quote and the backslash are escaped, tab, newline and return are
  written \<^verbatim>\<open>\t\<close>, \<^verbatim>\<open>\n\<close>, \<^verbatim>\<open>\r\<close>, and every other character that is not printable as
  \<^verbatim>\<open>\xNN\<close>.
\<close>

definition py_printable :: "char \<Rightarrow> bool" where
  "py_printable c =
     (let n = (of_char c :: nat) in (32 \<le> n \<and> n \<le> 126) \<or> (161 \<le> n \<and> n \<noteq> 173))"

definition repr_char :: "char \<Rightarrow> char \<Rightarrow> string" where
  "repr_char q c =
     (let n = (of_char c :: nat) in
      if c = q \<or> c = BSLASH then [BSLASH, c]
      else if n = 9 then [BSLASH, CHR ''t'']
      else if n = 10 then [BSLASH, CHR ''n'']
      else if n = 13 then [BSLASH, CHR ''r'']
      else if py_printable c then [c]
      else [BSLASH, CHR ''x''] @ hex2 n)"

definition repr_str :: "string \<Rightarrow> string" where
  "repr_str s =
     (let q = (if SQUOTE \<in> set s \<and> DQUOTE \<notin> set s then DQUOTE else SQUOTE)
      in q # concat (map (repr_char q) s) @ [q])"

fun py_repr :: "json \<Rightarrow> string" where
  "py_repr JNull = ''None''"
| "py_repr (JBool b) = (if b then ''True'' else ''False'')"
| "py_repr (JInt i) = str_int i"
| "py_repr (JStr s) = repr_str s"
| "py_repr (JArr xs) = ''['' @ join_comma (map py_repr xs) @ '']''"
| "py_repr (JObj kvs) =
     ''{'' @ join_comma (map (\<lambda>kv. repr_str (fst kv) @ '': '' @ py_repr (snd kv)) kvs) @ ''}''"

text \<open>\<^verbatim>\<open>str(v)\<close>, which is what \<^verbatim>\<open>f"{v}"\<close> inserts: a \<^verbatim>\<open>str\<close> as it is, anything else by \<^verbatim>\<open>repr\<close>.\<close>

definition py_str :: "json \<Rightarrow> string" where
  "py_str v = (case v of JStr s \<Rightarrow> s | _ \<Rightarrow> py_repr v)"

section \<open>Sockets and sessions\<close>

text \<open>
  A connected socket, as far as the server uses it: whether the connection still takes
  writes, whether \<^verbatim>\<open>close()\<close> was called, and the texts written so far (each
  \<^verbatim>\<open>sendall(message.encode('utf-8'))\<close> appends one). \<^verbatim>\<open>sendall\<close> raises \<^verbatim>\<open>OSError\<close> on a
  connection that is closed or broken.
\<close>

record sock =
  sock_connected :: bool
  sock_closed :: bool
  sock_sent :: "string list"

definition sendall :: "sock \<Rightarrow> string \<Rightarrow> pyerr + sock" where
  "sendall s message =
     (if sock_connected s \<and> \<not> sock_closed s
      then Inr (s\<lparr>sock_sent := sock_sent s @ [message]\<rparr>)
      else Inl OSError)"

definition sock_close :: "sock \<Rightarrow> sock" where
  "sock_close s = s\<lparr>sock_closed := True\<rparr>"

text \<open>
  \<^verbatim>\<open>MCPSession\<close>. The timestamps \<^verbatim>\<open>created_at\<close> and \<^verbatim>\<open>last_ping\<close> are never read and
  are left out, as is every call of \<^verbatim>\<open>MCPLogger.log\<close>, which only prints.
\<close>

record session =
  session_id :: string
  client_socket :: sock
  is_active :: bool

definition new_session :: "string \<Rightarrow> sock \<Rightarrow> session" where
  "new_session sid s = \<lparr>session_id = sid, client_socket = s, is_active = True\<rparr>"

text \<open>
  \<^verbatim>\<open>MCPSession.send_message(event_type, data)\<close>. The argument \<open>now\<close> is the text of
  \<^verbatim>\<open>datetime.now().isoformat()\<close> at the call. The result is the returned \<^verbatim>\<open>bool\<close> and
  the session after the call. The only statement of the \<^verbatim>\<open>try\<close> block that raises in
  the model is \<^verbatim>\<open>sendall\<close>.
\<close>

definition send_message :: "string \<Rightarrow> session \<Rightarrow> string \<Rightarrow> json \<Rightarrow> bool \<times> session" where
  "send_message now self event_type data =
     (let message =
        (if event_type = ''ping'' then '': ping - '' @ now @ ''+00:00'' @ CRLF @ CRLF
         else
           (if event_type \<noteq> ''message'' then ''event: '' @ event_type @ CRLF else [])
           @ ''data: ''
           @ (case data of JObj kvs \<Rightarrow> json_dumps data | _ \<Rightarrow> py_str data)
           @ CRLF @ CRLF)
      in case sendall (client_socket self) message of
           Inr s' \<Rightarrow> (True, self\<lparr>client_socket := s'\<rparr>)
         | Inl e \<Rightarrow> (False, self\<lparr>is_active := False\<rparr>))"

section \<open>The server\<close>

record tool =
  description :: string
  input_schema :: json
  handler :: "json \<Rightarrow> string + json"

text \<open>
  A tool's \<open>handler\<close> is the application's callable: \<open>Inr r\<close> when it returns \<open>r\<close>,
  \<open>Inl m\<close> when it raises an \<^verbatim>\<open>Exception\<close> \<open>e\<close> with \<^verbatim>\<open>str(e)\<close> = \<open>m\<close>. Handlers are taken
  to return and to leave the server alone.

  \<^verbatim>\<open>MCPServer\<close>: \<open>tool_handlers\<close> is the \<^verbatim>\<open>dict\<close> of tools in insertion order,
  \<open>active_sessions\<close> the \<^verbatim>\<open>dict\<close> of sessions by id.
\<close>

record server =
  server_info :: json
  capabilities :: json
  active_sessions :: "string \<rightharpoonup> session"
  tool_handlers :: "(string \<times> tool) list"
  running :: bool

definition default_server_info :: json where
  "default_server_info = JObj [(''name'', JStr ''mcp-server''), (''version'', JStr ''1.0.0'')]"

definition default_capabilities :: json where
  "default_capabilities = JObj
     [(''experimental'', JObj []),
      (''prompts'', JObj [(''listChanged'', JBool False)]),
      (''resources'', JObj [(''subscribe'', JBool False), (''listChanged'', JBool False)]),
      (''tools'', JObj [(''listChanged'', JBool False)])]"

definition new_server :: "json option \<Rightarrow> server" where
  "new_server info =
     \<lparr>server_info = (case info of None \<Rightarrow> default_server_info | Some i \<Rightarrow> i),
      capabilities = default_capabilities,
      active_sessions = Map.empty,
      tool_handlers = [],
      running = False\<rparr>"

text \<open>\<^verbatim>\<open>d[k] = v\<close> on a \<^verbatim>\<open>dict\<close>: an existing key keeps its place, a new one goes last.\<close>

fun dict_set :: "('k \<times> 'v) list \<Rightarrow> 'k \<Rightarrow> 'v \<Rightarrow> ('k \<times> 'v) list" where
  "dict_set [] k v = [(k, v)]"
| "dict_set ((k', v') # kvs) k v = (if k' = k then (k, v) # kvs else (k', v') # dict_set kvs k v)"

definition register_tool :: "server \<Rightarrow> string \<Rightarrow> string \<Rightarrow> json \<Rightarrow> (json \<Rightarrow> string + json) \<Rightarrow> server" where
  "register_tool self name descr schema h =
     self\<lparr>tool_handlers :=
       dict_set (tool_handlers self) name \<lparr>description = descr, input_schema = schema, handler = h\<rparr>\<rparr>"

definition create_session :: "server \<Rightarrow> string \<Rightarrow> sock \<Rightarrow> server" where
  "create_session self sid s =
     self\<lparr>active_sessions := (active_sessions self)(sid \<mapsto> new_session sid s)\<rparr>"

text \<open>
  \<^verbatim>\<open>_send_response\<close>: the session object lives in the registry and \<^verbatim>\<open>send_message\<close>
  mutates it in place, so the session after the call is stored under the same id.
\<close>

definition send_response :: "string \<Rightarrow> server \<Rightarrow> string \<Rightarrow> json \<Rightarrow> server" where
  "send_response now self sid response =
     (case active_sessions self sid of
        None \<Rightarrow> self
      | Some sess \<Rightarrow>
          self\<lparr>active_sessions :=
            (active_sessions self)(sid \<mapsto> snd (send_message now sess ''message'' response))\<rparr>)"

subsection \<open>The JSON-RPC dispatcher\<close>

text \<open>\<^verbatim>\<open>obj.get(key, default)\<close>: only a \<^verbatim>\<open>dict\<close> has \<^verbatim>\<open>get\<close>.\<close>

definition py_get :: "json \<Rightarrow> string \<Rightarrow> json \<Rightarrow> pyerr + json" where
  "py_get obj key dflt =
     (case obj of
        JObj kvs \<Rightarrow> Inr (case map_of kvs key of None \<Rightarrow> dflt | Some v \<Rightarrow> v)
      | _ \<Rightarrow> Inl AttributeError)"

text \<open>
  \<^verbatim>\<open>tool_name in self.tool_handlers\<close> followed by \<^verbatim>\<open>self.tool_handlers[tool_name]\<close>: a
  \<^verbatim>\<open>list\<close> or a \<^verbatim>\<open>dict\<close> is unhashable and raises \<^verbatim>\<open>TypeError\<close>; the keys are texts, so
  only a text can be found.
\<close>

definition find_tool :: "(string \<times> tool) list \<Rightarrow> json \<Rightarrow> pyerr + tool option" where
  "find_tool reg tool_name =
     (case tool_name of
        JArr xs \<Rightarrow> Inl TypeError
      | JObj kvs \<Rightarrow> Inl TypeError
      | JStr s \<Rightarrow> Inr (map_of reg s)
      | _ \<Rightarrow> Inr None)"

definition rpc_result :: "json \<Rightarrow> json \<Rightarrow> json \<Rightarrow> json" where
  "rpc_result jsonrpc request_id result =
     JObj [(''jsonrpc'', jsonrpc), (''id'', request_id), (''result'', result)]"

definition rpc_error :: "json \<Rightarrow> json \<Rightarrow> int \<Rightarrow> string \<Rightarrow> json" where
  "rpc_error jsonrpc request_id code message =
     JObj [(''jsonrpc'', jsonrpc), (''id'', request_id),
           (''error'', JObj [(''code'', JInt code), (''message'', JStr message)])]"

definition tool_entry :: "string \<times> tool \<Rightarrow> json" where
  "tool_entry nt =
     JObj [(''name'', JStr (fst nt)),
           (''description'', JStr (description (snd nt))),
           (''inputSchema'', input_schema (snd nt))]"

text \<open>
  The body of the \<^verbatim>\<open>try\<close> block of \<^verbatim>\<open>_handle_jsonrpc_request\<close>, from the parsed request
  on: \<open>Inl e\<close> when it raises \<open>e\<close>, \<open>Inr\<close> the server after it otherwise.
\<close>

definition dispatch :: "string \<Rightarrow> server \<Rightarrow> string \<Rightarrow> json \<Rightarrow> pyerr + server" where
  "dispatch now self sid request =
     (case py_get request ''method'' (JStr []) of Inl e \<Rightarrow> Inl e | Inr meth \<Rightarrow>
      case py_get request ''jsonrpc'' (JStr ''2.0'') of Inl e \<Rightarrow> Inl e | Inr jsonrpc \<Rightarrow>
      case py_get request ''id'' JNull of Inl e \<Rightarrow> Inl e | Inr request_id \<Rightarrow>
      case py_get request ''params'' (JObj []) of Inl e \<Rightarrow> Inl e | Inr params \<Rightarrow>
        if meth = JStr ''initialize'' then
          (case py_get params ''protocolVersion'' (JStr ''2024-11-05'') of
             Inl e \<Rightarrow> Inl e
           | Inr protocol_version \<Rightarrow>
               Inr (send_response now self sid
                 (rpc_result jsonrpc request_id
                   (JObj [(''protocolVersion'', protocol_version),
                          (''capabilities'', capabilities self),
                          (''serverInfo'', server_info self)]))))
        else if meth = JStr ''notifications/initialized'' then Inr self
        else if meth = JStr ''tools/list'' then
          Inr (send_response now self sid
            (rpc_result jsonrpc request_id
              (JObj [(''tools'', JArr (map tool_entry (tool_handlers self)))])))
        else if meth \<in> set [JStr ''tools/run'', JStr ''tools/call''] then
          (case py_get params ''name'' (JStr []) of Inl e \<Rightarrow> Inl e | Inr tool_name \<Rightarrow>
           case py_get params ''arguments'' (JObj []) of Inl e \<Rightarrow> Inl e | Inr tool_args \<Rightarrow>
           case find_tool (tool_handlers self) tool_name of
             Inl e \<Rightarrow> Inl e
           | Inr (Some t) \<Rightarrow>
               (case handler t tool_args of
                  Inr result \<Rightarrow>
                    Inr (send_response now self sid (rpc_result jsonrpc request_id result))
                | Inl msg \<Rightarrow>
                    Inr (send_response now self sid
                      (rpc_error jsonrpc request_id (- 32603) (''Tool execution failed: '' @ msg))))
           | Inr None \<Rightarrow>
               Inr (send_response now self sid
                 (rpc_error jsonrpc request_id (- 32601) (''Tool not found: '' @ py_str tool_name))))
        else if request_id \<noteq> JNull then
          Inr (send_response now self sid
            (rpc_error jsonrpc request_id (- 32601) (''Method not found: '' @ py_str meth)))
        else Inr self)"

text \<open>
  \<^verbatim>\<open>_handle_jsonrpc_request\<close>. \<open>loads\<close> stands for \<^verbatim>\<open>json.loads\<close>: \<open>None\<close> when it raises
  \<^verbatim>\<open>JSONDecodeError\<close>. Both \<^verbatim>\<open>except\<close> clauses only log, and nothing was sent when
  one of them is reached.
\<close>

definition handle_jsonrpc_request ::
  "(string \<Rightarrow> json option) \<Rightarrow> string \<Rightarrow> server \<Rightarrow> string \<Rightarrow> string \<Rightarrow> server" where
  "handle_jsonrpc_request loads now self sid request_data =
     (case loads request_data of
        None \<Rightarrow> self
      | Some request \<Rightarrow>
          (case dispatch now self sid request of Inl e \<Rightarrow> self | Inr self' \<Rightarrow> self'))"

section \<open>The HTTP layer\<close>

subsection \<open>The \<^verbatim>\<open>str\<close> methods the parser uses\<close>

text \<open>\<open>cut sep s\<close>: the text before and after the first \<open>sep\<close> in \<open>s\<close>, if there is one.\<close>

fun cut :: "string \<Rightarrow> string \<Rightarrow> (string \<times> string) option" where
  "cut sep [] = None"
| "cut sep (c # cs) =
     (if take (length sep) (c # cs) = sep then Some ([], drop (length sep) (c # cs))
      else (case cut sep cs of None \<Rightarrow> None | Some (a, b) \<Rightarrow> Some (c # a, b)))"

text \<open>\<^verbatim>\<open>s.split(sep, maxsplit)\<close> for a separator that is not empty.\<close>

fun py_split_max :: "string \<Rightarrow> string \<Rightarrow> nat \<Rightarrow> string list" where
  "py_split_max s sep 0 = [s]"
| "py_split_max s sep (Suc n) =
     (case cut sep s of None \<Rightarrow> [s] | Some (a, b) \<Rightarrow> a # py_split_max b sep n)"

text \<open>\<^verbatim>\<open>s.split(sep)\<close>: a text of length \<open>n\<close> holds at most \<open>n\<close> separators.\<close>

definition py_split :: "string \<Rightarrow> string \<Rightarrow> string list" where
  "py_split s sep = py_split_max s sep (length s)"

text \<open>\<^verbatim>\<open>s.find(sub)\<close>: the first index where \<open>sub\<close> starts, or \<open>-1\<close>.\<close>

fun find_from :: "string \<Rightarrow> string \<Rightarrow> nat \<Rightarrow> int" where
  "find_from sub [] i = (if sub = [] then int i else - 1)"
| "find_from sub (c # cs) i =
     (if take (length sub) (c # cs) = sub then int i else find_from sub cs (Suc i))"

definition py_find :: "string \<Rightarrow> string \<Rightarrow> int" where
  "py_find s sub = find_from sub s 0"

definition py_startswith :: "string \<Rightarrow> string \<Rightarrow> bool" where
  "py_startswith s pre = (take (length pre) s = pre)"

text \<open>The characters \<^verbatim>\<open>str.strip()\<close> removes, among the code points below 256.\<close>

definition py_isspace :: "char \<Rightarrow> bool" where
  "py_isspace c =
     (let n = (of_char c :: nat) in (9 \<le> n \<and> n \<le> 13) \<or> (28 \<le> n \<and> n \<le> 32) \<or> n = 133 \<or> n = 160)"

definition py_strip :: "string \<Rightarrow> string" where
  "py_strip s = rev (dropWhile py_isspace (rev (dropWhile py_isspace s)))"

text \<open>\<^verbatim>\<open>str.lower()\<close> on the code points below 256: A to Z, and the Latin-1 capitals.\<close>

definition lower_char :: "char \<Rightarrow> char" where
  "lower_char c =
     (let n = (of_char c :: nat) in
      if (65 \<le> n \<and> n \<le> 90) \<or> (192 \<le> n \<and> n \<le> 222 \<and> n \<noteq> 215) then char_of (n + 32) else c)"

definition py_lower :: "string \<Rightarrow> string" where
  "py_lower s = map lower_char s"

subsection \<open>Parsing a request\<close>

text \<open>Unpacking a list into two or three names raises \<^verbatim>\<open>ValueError\<close> on any other length.\<close>

definition unpack3 :: "string list \<Rightarrow> pyerr + string \<times> string \<times> string" where
  "unpack3 parts = (case parts of [a, b, c] \<Rightarrow> Inr (a, b, c) | _ \<Rightarrow> Inl ValueError)"

definition unpack2 :: "string list \<Rightarrow> pyerr + string \<times> string" where
  "unpack2 parts = (case parts of [a, b] \<Rightarrow> Inr (a, b) | _ \<Rightarrow> Inl ValueError)"

record request =
  req_method :: string
  req_path :: string
  req_version :: string
  req_headers :: "string \<rightharpoonup> string"
  req_body :: string

definition parse_request_line :: "string \<Rightarrow> string \<times> string \<times> string" where
  "parse_request_line line =
     (case unpack3 (py_split_max line '' '' 2) of
        Inr t \<Rightarrow> t
      | Inl e \<Rightarrow> (''UNKNOWN'', ''/'', ''HTTP/1.1''))"

fun parse_headers :: "string list \<Rightarrow> (string \<rightharpoonup> string) \<Rightarrow> (string \<rightharpoonup> string)" where
  "parse_headers [] headers = headers"
| "parse_headers (line # rest) headers =
     (if line = [] then headers
      else (case unpack2 (py_split_max line '':'' 1) of
              Inr kv \<Rightarrow> parse_headers rest (headers(py_lower (py_strip (fst kv)) \<mapsto> py_strip (snd kv)))
            | Inl e \<Rightarrow> parse_headers rest headers))"

text \<open>
  The parsing part of \<^verbatim>\<open>_handle_client\<close>, from the decoded \<^verbatim>\<open>request_text\<close> on. \<open>None\<close>
  is the early \<^verbatim>\<open>return\<close> on an empty list of lines.
\<close>

definition parse_request :: "string \<Rightarrow> request option" where
  "parse_request request_text =
     (case py_split request_text CRLF of
        [] \<Rightarrow> None
      | first # rest \<Rightarrow>
          (let mpv = parse_request_line first;
               headers = parse_headers rest Map.empty;
               body_start = py_find request_text (CRLF @ CRLF);
               body = (if body_start \<noteq> - 1 then drop (nat (body_start + 4)) request_text else [])
           in Some \<lparr>req_method = fst mpv, req_path = fst (snd mpv), req_version = snd (snd mpv),
                     req_headers = headers, req_body = body\<rparr>))"

datatype route = SSE | Messages | Default

definition route_request :: "string \<Rightarrow> string \<Rightarrow> route" where
  "route_request meth path =
     (if meth = ''GET'' \<and> path = ''/sse'' then SSE
      else if meth = ''POST'' \<and> py_startswith path ''/messages/'' then Messages
      else Default)"

subsection \<open>The message-submit handler\<close>

definition response_202 :: string where
  "response_202 =
     ''HTTP/1.1 202 Accepted'' @ CRLF @
     ''Content-Type: text/plain'' @ CRLF @
     ''Content-Length: 0'' @ CRLF @
     ''Connection: close'' @ CRLF @
     CRLF"

definition response_404 :: string where
  "response_404 =
     ''HTTP/1.1 404 Not Found'' @ CRLF @
     ''Content-Type: text/plain'' @ CRLF @
     ''Content-Length: 13'' @ CRLF @
     ''Connection: close'' @ CRLF @
     CRLF @
     ''Invalid session''"

definition response_400 :: string where
  "response_400 =
     ''HTTP/1.1 400 Bad Request'' @ CRLF @
     ''Content-Type: text/plain'' @ CRLF @
     ''Content-Length: 22'' @ CRLF @
     ''Connection: close'' @ CRLF @
     CRLF @
     ''Missing session_id param''"

text \<open>
  \<^verbatim>\<open>_handle_messages_request\<close>. \<open>parse_qs\<close> stands for \<^verbatim>\<open>urllib.parse.parse_qs\<close>. The
  result is the server after the call and what the last two statements did to the
  POST's own socket: the error \<^verbatim>\<open>sendall\<close> raised, or the socket after \<^verbatim>\<open>close()\<close>.
\<close>

definition messages_response ::
  "(string \<Rightarrow> json option) \<Rightarrow> (string \<Rightarrow> string \<rightharpoonup> string list) \<Rightarrow> string \<Rightarrow> server \<Rightarrow>
   string \<Rightarrow> (string \<rightharpoonup> string) \<Rightarrow> string \<Rightarrow> server \<times> string" where
  "messages_response loads parse_qs now self path headers body =
     (let query_start = py_find path ''?'' in
      if query_start \<noteq> - 1 then
        (let query_string = drop (nat (query_start + 1)) path;
             query_params = parse_qs query_string;
             session_ids = (case query_params ''session_id'' of None \<Rightarrow> [] | Some l \<Rightarrow> l)
         in if session_ids \<noteq> [] \<and> hd session_ids \<in> dom (active_sessions self) then
              ((if headers ''content-type'' = Some ''application/json''
                then handle_jsonrpc_request loads now self (hd session_ids) body
                else self),
               response_202)
            else (self, response_404))
      else (self, response_400))"

definition handle_messages_request ::
  "(string \<Rightarrow> json option) \<Rightarrow> (string \<Rightarrow> string \<rightharpoonup> string list) \<Rightarrow> string \<Rightarrow> server \<Rightarrow>
   sock \<Rightarrow> string \<Rightarrow> (string \<rightharpoonup> string) \<Rightarrow> string \<Rightarrow> server \<times> (pyerr + sock)" where
  "handle_messages_request loads parse_qs now self client path headers body =
     (let sr = messages_response loads parse_qs now self path headers body in
      (fst sr,
       case sendall client (snd sr) of Inl e \<Rightarrow> Inl e | Inr c \<Rightarrow> Inr (sock_close c)))"

section \<open>The frame of the specification, and a server to run\<close>

text \<open>
  The frame as section 4.2 of the specification words it: a comment line for
  \<^verbatim>\<open>ping\<close>; otherwise an \<^verbatim>\<open>event:\<close> line unless the event type is \<^verbatim>\<open>message\<close>, then a
  \<^verbatim>\<open>data:\<close> line holding the JSON text of a structured payload or the payload as it
  is, then a blank line.
\<close>

definition spec_payload :: "json \<Rightarrow> string" where
  "spec_payload payload =
     (case payload of JObj kvs \<Rightarrow> json_dumps (JObj kvs) | JStr s \<Rightarrow> s | _ \<Rightarrow> py_str payload)"

definition spec_frame :: "string \<Rightarrow> string \<Rightarrow> json \<Rightarrow> string" where
  "spec_frame now event_type payload =
     (if event_type = ''ping'' then '': ping - '' @ now @ ''+00:00'' @ CRLF @ CRLF
      else if event_type = ''message'' then ''data: '' @ spec_payload payload @ CRLF @ CRLF
      else ''event: '' @ event_type @ CRLF @ ''data: '' @ spec_payload payload @ CRLF @ CRLF)"

text \<open>Characters \<^verbatim>\<open>' '\<close> to \<^verbatim>\<open>'~'\<close>: none of them ends a line.\<close>

definition ascii_printable :: "char \<Rightarrow> bool" where
  "ascii_printable c = (32 \<le> (of_char c :: nat) \<and> (of_char c :: nat) \<le> 126)"

text \<open>
  A server with two tools and one open session: \<^verbatim>\<open>echo\<close> returns the result of the
  specification's round-trip example, \<^verbatim>\<open>fail\<close> raises.
\<close>

definition open_sock :: sock where
  "open_sock = \<lparr>sock_connected = True, sock_closed = False, sock_sent = []\<rparr>"

definition broken_sock :: sock where
  "broken_sock = \<lparr>sock_connected = False, sock_closed = False, sock_sent = []\<rparr>"

definition echo_result :: json where
  "echo_result =
     JObj [(''content'', JArr [JObj [(''type'', JStr ''text''), (''text'', JStr ''X'')]]),
           (''isError'', JBool False)]"

definition demo_server :: server where
  "demo_server =
     create_session
       (register_tool
         (register_tool (new_server None) ''echo'' ''Echo'' (JObj []) (\<lambda>args. Inr echo_result))
         ''fail'' ''Fail'' (JObj []) (\<lambda>args. Inl ''boom''))
       ''s1'' open_sock"

text \<open>The texts sent so far to the session \<open>sid\<close> of a server.\<close>

definition stream_of :: "server \<Rightarrow> string \<Rightarrow> string list option" where
  "stream_of self sid = map_option (\<lambda>sess. sock_sent (client_socket sess)) (active_sessions self sid)"

text \<open>\<^verbatim>\<open>d.get(key, default)\<close> on the items of a \<^verbatim>\<open>dict\<close>, and a text between double quotes.\<close>

definition dict_get :: "(string \<times> json) list \<Rightarrow> string \<Rightarrow> json \<Rightarrow> json" where
  "dict_get kvs key dflt = (case map_of kvs key of None \<Rightarrow> dflt | Some v \<Rightarrow> v)"

definition quoted :: "string \<Rightarrow> string" where
  "quoted s = DQUOTE # s @ [DQUOTE]"

definition plain_server :: server where
  "plain_server = create_session (new_server None) ''s1'' open_sock"

text \<open>A stand-in for \<^verbatim>\<open>json.loads\<close> that reads every body as the value \<open>j\<close>.\<close>

definition loads_as :: "json \<Rightarrow> string \<Rightarrow> json option" where
  "loads_as j request_data = Some j"

section \<open>The JSON text of a value is a single line\<close>

lemma digit_char_printable: "d < 10 \<Longrightarrow> ascii_printable (digit_char d)"
proof -
  assume "d < 10"
  then have "''0123456789'' ! d \<in> set ''0123456789''"
    by (intro nth_mem) simp
  moreover have "\<forall>c \<in> set ''0123456789''. ascii_printable c"
    by (simp add: ascii_printable_def)
  ultimately show ?thesis
    unfolding digit_char_def by blast
qed

lemma hex_digit_printable: "d < 16 \<Longrightarrow> ascii_printable (hex_digit d)"
proof -
  assume "d < 16"
  then have "''0123456789abcdef'' ! d \<in> set ''0123456789abcdef''"
    by (intro nth_mem) simp
  moreover have "\<forall>c \<in> set ''0123456789abcdef''. ascii_printable c"
    by (simp add: ascii_printable_def)
  ultimately show ?thesis
    unfolding hex_digit_def by blast
qed

lemma str_nat_printable: "c \<in> set (str_nat n) \<Longrightarrow> ascii_printable c"
proof (induction n arbitrary: c rule: str_nat.induct)
  case (1 n)
  show ?case
  proof (cases "n < 10")
    case True
    with "1.prems" show ?thesis
      by (simp add: str_nat.simps [of n] digit_char_printable)
  next
    case False
    with "1.prems" have "c \<in> set (str_nat (n div 10)) \<or> c = digit_char (n mod 10)"
      by (auto simp: str_nat.simps [of n])
    then show ?thesis
      using "1.IH" [OF False] digit_char_printable [of "n mod 10"] by auto
  qed
qed

lemma str_int_printable: "c \<in> set (str_int i) \<Longrightarrow> ascii_printable c"
  by (auto simp: str_int_def ascii_printable_def [of "CHR ''-''"] dest: str_nat_printable split: if_splits)

lemma of_char_less_256: "(of_char c :: nat) < 256"
  using of_char_mod_256 [of c, where ?'a = nat] by (metis mod_less_divisor zero_less_numeral)

lemma hex2_printable: "c \<in> set (hex2 (of_char x)) \<Longrightarrow> ascii_printable c"
proof -
  have "(of_char x :: nat) div 16 < 16"
    using of_char_less_256 [of x] by (intro less_mult_imp_div_less) simp
  moreover have "(of_char x :: nat) mod 16 < 16" by simp
  ultimately show "c \<in> set (hex2 (of_char x)) \<Longrightarrow> ascii_printable c"
    by (auto simp: hex2_def hex_digit_printable)
qed

lemma json_escape_char_printable: "c \<in> set (json_escape_char x) \<Longrightarrow> ascii_printable c"
  by (auto simp: json_escape_char_def Let_def BSLASH_def DQUOTE_def ascii_printable_def [of "CHR 0x5C"]
      ascii_printable_def [of "CHR 0x22"] ascii_printable_def [of "CHR ''b''"] ascii_printable_def [of "CHR ''f''"]
      ascii_printable_def [of "CHR ''n''"] ascii_printable_def [of "CHR ''r''"] ascii_printable_def [of "CHR ''t''"]
      ascii_printable_def [of "CHR ''u''"] ascii_printable_def [of "CHR ''0''"] ascii_printable_def [of x]
      dest: hex2_printable split: if_splits)

lemma json_string_printable: "c \<in> set (json_string s) \<Longrightarrow> ascii_printable c"
  by (auto simp: json_string_def DQUOTE_def ascii_printable_def [of "CHR 0x22"] dest: json_escape_char_printable)

lemma join_comma_printable:
  "\<forall>x \<in> set xs. \<forall>c \<in> set x. ascii_printable c \<Longrightarrow> c \<in> set (join_comma xs) \<Longrightarrow> ascii_printable c"
proof (induction xs rule: join_comma.induct)
  case 1
  then show ?case by simp
next
  case (2 x)
  then show ?case by simp
next
  case (3 x y ys)
  from "3.prems"(2) have "c \<in> set x \<or> c \<in> set '', '' \<or> c \<in> set (join_comma (y # ys))"
    by auto
  then show ?case
  proof (elim disjE)
    assume "c \<in> set x"
    then show ?thesis using "3.prems"(1) by simp
  next
    assume "c \<in> set '', ''"
    then show ?thesis by (auto simp: ascii_printable_def)
  next
    assume "c \<in> set (join_comma (y # ys))"
    then show ?thesis using "3.IH" "3.prems"(1) by auto
  qed
qed

lemma json_dumps_printable: "c \<in> set (json_dumps j) \<Longrightarrow> ascii_printable c"
proof (induction j arbitrary: c)
  case JNull
  then show ?case by (auto simp: ascii_printable_def)
next
  case (JBool b)
  then show ?case by (auto simp: ascii_printable_def split: if_splits)
next
  case (JInt i)
  then show ?case by (simp add: str_int_printable)
next
  case (JStr s)
  then show ?case by (simp add: json_string_printable)
next
  case (JArr xs)
  have inner: "\<forall>x \<in> set (map json_dumps xs). \<forall>c \<in> set x. ascii_printable c"
    using JArr.IH by auto
  from JArr.prems have "c \<in> set ''[]'' \<or> c \<in> set (join_comma (map json_dumps xs))"
    by auto
  then show ?case
  proof
    assume "c \<in> set ''[]''"
    then show ?thesis by (auto simp: ascii_printable_def)
  next
    assume "c \<in> set (join_comma (map json_dumps xs))"
    with inner show ?thesis by (rule join_comma_printable)
  qed
next
  case (JObj kvs)
  let ?member = "\<lambda>kv. json_string (fst kv) @ '': '' @ json_dumps (snd kv)"
  have inner: "\<forall>x \<in> set (map ?member kvs). \<forall>c \<in> set x. ascii_printable c"
  proof (intro ballI)
    fix x c
    assume "x \<in> set (map ?member kvs)" and c: "c \<in> set x"
    then obtain kv where kv: "kv \<in> set kvs" and x: "x = ?member kv"
      by auto
    from c x have "c \<in> set (json_string (fst kv)) \<or> c \<in> set '': '' \<or> c \<in> set (json_dumps (snd kv))"
      by auto
    then show "ascii_printable c"
    proof (elim disjE)
      assume "c \<in> set (json_string (fst kv))"
      then show ?thesis by (rule json_string_printable)
    next
      assume "c \<in> set '': ''"
      then show ?thesis by (auto simp: ascii_printable_def)
    next
      assume "c \<in> set (json_dumps (snd kv))"
      then show ?thesis using JObj.IH [of kv "snd kv" c] kv by (cases kv) auto
    qed
  qed
  from JObj.prems have "c \<in> set ''{}'' \<or> c \<in> set (join_comma (map ?member kvs))"
    by auto
  then show ?case
  proof
    assume "c \<in> set ''{}''"
    then show ?thesis by (auto simp: ascii_printable_def)
  next
    assume "c \<in> set (join_comma (map ?member kvs))"
    with inner show ?thesis by (rule join_comma_printable)
  qed
qed

lemma json_dumps_single_line: "CR \<notin> set (json_dumps j) \<and> LF \<notin> set (json_dumps j)"
  using json_dumps_printable [of CR j] json_dumps_printable [of LF j]
  by (auto simp: ascii_printable_def CR_def LF_def)

section \<open>Characters by code point\<close>

lemma char_of_eq_iff_nat: "char_of (n::nat) = c \<longleftrightarrow> n mod 256 = of_char c"
proof
  assume "char_of n = c"
  then have "of_char (char_of n) = (of_char c :: nat)" by simp
  then show "n mod 256 = of_char c" by simp
next
  assume "n mod 256 = of_char c"
  then have "char_of (n mod 256) = char_of (of_char c :: nat)" by simp
  then show "char_of n = c" by simp
qed

lemma char_eq_char_of_iff_nat: "c = char_of (n::nat) \<longleftrightarrow> n mod 256 = of_char c"
  using char_of_eq_iff_nat [of n c] by auto

section \<open>Evaluation rules\<close>

lemmas text_defs = CRLF_def CR_def LF_def DQUOTE_def SQUOTE_def BSLASH_def

lemmas parse_defs = parse_request_def parse_request_line_def py_split_def py_find_def
  unpack2_def unpack3_def py_strip_def py_lower_def lower_char_def py_isspace_def Let_def
  char_of_eq_iff_nat char_eq_char_of_iff_nat

lemmas dumps_defs = json_string_def json_escape_char_def str_int_def str_nat.simps digit_char_def
  hex2_def hex_digit_def quoted_def DQUOTE_def BSLASH_def

lemmas server_defs = demo_server_def plain_server_def create_session_def register_tool_def
  new_server_def new_session_def open_sock_def default_server_info_def default_capabilities_def

section \<open>The dispatcher on an object\<close>

lemma py_get_obj: "py_get (JObj kvs) key dflt = Inr (dict_get kvs key dflt)"
  by (simp add: py_get_def dict_get_def)

lemma dispatch_obj:
  "dispatch now self sid (JObj kvs) =
     (let meth = dict_get kvs ''method'' (JStr []);
          jsonrpc = dict_get kvs ''jsonrpc'' (JStr ''2.0'');
          request_id = dict_get kvs ''id'' JNull;
          params = dict_get kvs ''params'' (JObj [])
      in if meth = JStr ''initialize'' then
          (case py_get params ''protocolVersion'' (JStr ''2024-11-05'') of
             Inl e \<Rightarrow> Inl e
           | Inr protocol_version \<Rightarrow>
               Inr (send_response now self sid
                 (rpc_result jsonrpc request_id
                   (JObj [(''protocolVersion'', protocol_version),
                          (''capabilities'', capabilities self),
                          (''serverInfo'', server_info self)]))))
        else if meth = JStr ''notifications/initialized'' then Inr self
        else if meth = JStr ''tools/list'' then
          Inr (send_response now self sid
            (rpc_result jsonrpc request_id
              (JObj [(''tools'', JArr (map tool_entry (tool_handlers self)))])))
        else if meth = JStr ''tools/run'' \<or> meth = JStr ''tools/call'' then
          (case py_get params ''name'' (JStr []) of Inl e \<Rightarrow> Inl e | Inr tool_name \<Rightarrow>
           case py_get params ''arguments'' (JObj []) of Inl e \<Rightarrow> Inl e | Inr tool_args \<Rightarrow>
           case find_tool (tool_handlers self) tool_name of
             Inl e \<Rightarrow> Inl e
           | Inr (Some t) \<Rightarrow>
               (case handler t tool_args of
                  Inr result \<Rightarrow>
                    Inr (send_response now self sid (rpc_result jsonrpc request_id result))
                | Inl msg \<Rightarrow>
                    Inr (send_response now self sid
                      (rpc_error jsonrpc request_id (- 32603) (''Tool execution failed: '' @ msg))))
           | Inr None \<Rightarrow>
               Inr (send_response now self sid
                 (rpc_error jsonrpc request_id (- 32601) (''Tool not found: '' @ py_str tool_name))))
        else if request_id \<noteq> JNull then
          Inr (send_response now self sid
            (rpc_error jsonrpc request_id (- 32601) (''Method not found: '' @ py_str meth)))
        else Inr self)"
  by (simp add: dispatch_def py_get_obj Let_def)

lemma dispatch_tools:
  assumes "dict_get kvs ''method'' (JStr []) = JStr m" and "m = ''tools/call'' \<or> m = ''tools/run''"
    and "dict_get kvs ''params'' (JObj []) = JObj ps"
  shows "dispatch now self sid (JObj kvs) =
     (case find_tool (tool_handlers self) (dict_get ps ''name'' (JStr [])) of
        Inl e \<Rightarrow> Inl e
      | Inr (Some t) \<Rightarrow>
          (case handler t (dict_get ps ''arguments'' (JObj [])) of
             Inr result \<Rightarrow>
               Inr (send_response now self sid
                 (rpc_result (dict_get kvs ''jsonrpc'' (JStr ''2.0'')) (dict_get kvs ''id'' JNull) result))
           | Inl msg \<Rightarrow>
               Inr (send_response now self sid
                 (rpc_error (dict_get kvs ''jsonrpc'' (JStr ''2.0'')) (dict_get kvs ''id'' JNull) (- 32603)
                    (''Tool execution failed: '' @ msg))))
      | Inr None \<Rightarrow>
          Inr (send_response now self sid
            (rpc_error (dict_get kvs ''jsonrpc'' (JStr ''2.0'')) (dict_get kvs ''id'' JNull) (- 32601)
               (''Tool not found: '' @ py_str (dict_get ps ''name'' (JStr []))))))"
  using assms by (auto simp: dispatch_obj py_get_obj Let_def)


lemma find_tool_str: "find_tool reg (JStr name) = Inr (map_of reg name)"
  by (simp add: find_tool_def)

section \<open>The request parser\<close>

lemma cut_single_None: "c \<notin> set s \<Longrightarrow> cut [c] s = None"
  by (induction s) auto

lemma cut_single_Some: "c \<notin> set a \<Longrightarrow> cut [c] (a @ c # b) = Some (a, b)"
  by (induction a) auto

lemma split_at_first: "c \<in> set s \<Longrightarrow> \<exists>a b. s = a @ c # b \<and> c \<notin> set a"
  by (metis split_list_first)

lemma py_split_max_nonempty: "py_split_max s sep n \<noteq> []"
  by (cases n) (auto split: option.splits)

lemma py_split_max_two:
  "py_split_max s sep 2 =
     (case cut sep s of
        None \<Rightarrow> [s]
      | Some (a, b) \<Rightarrow> (case cut sep b of None \<Rightarrow> [a, b] | Some (p, v) \<Rightarrow> [a, p, v]))"
proof -
  have "py_split_max s sep (Suc (Suc 0)) =
     (case cut sep s of
        None \<Rightarrow> [s]
      | Some (a, b) \<Rightarrow> (case cut sep b of None \<Rightarrow> [a, b] | Some (p, v) \<Rightarrow> [a, p, v]))"
    by (simp split: option.splits)
  then show ?thesis
    by (simp only: numeral_2_eq_2)
qed

lemma py_split_max_one:
  "py_split_max s sep 1 = (case cut sep s of None \<Rightarrow> [s] | Some (a, b) \<Rightarrow> [a, b])"
proof -
  have "py_split_max s sep (Suc 0) = (case cut sep s of None \<Rightarrow> [s] | Some (a, b) \<Rightarrow> [a, b])"
    by (simp split: option.splits)
  then show ?thesis
    by (simp only: One_nat_def)
qed

lemma request_line_no_space:
  assumes "CHR '' '' \<notin> set line"
  shows "parse_request_line line = (''UNKNOWN'', ''/'', ''HTTP/1.1'')"
proof -
  have "cut '' '' line = None"
    using assms by (rule cut_single_None)
  then have "py_split_max line '' '' 2 = [line]"
    by (simp only: py_split_max_two option.case)
  then show ?thesis
    by (simp add: parse_request_line_def unpack3_def del: py_split_max.simps)
qed

lemma request_line_one_space:
  assumes "CHR '' '' \<notin> set a" and "CHR '' '' \<notin> set b"
  shows "parse_request_line (a @ CHR '' '' # b) = (''UNKNOWN'', ''/'', ''HTTP/1.1'')"
proof -
  have "cut '' '' (a @ CHR '' '' # b) = Some (a, b)"
    using assms(1) by (rule cut_single_Some)
  moreover have "cut '' '' b = None"
    using assms(2) by (rule cut_single_None)
  ultimately have "py_split_max (a @ CHR '' '' # b) '' '' 2 = [a, b]"
    by (simp only: py_split_max_two option.case prod.case)
  then show ?thesis
    by (simp add: parse_request_line_def unpack3_def del: py_split_max.simps)
qed

lemma request_line_three_parts:
  assumes "CHR '' '' \<notin> set m" and "CHR '' '' \<notin> set p"
  shows "parse_request_line (m @ CHR '' '' # p @ CHR '' '' # v) = (m, p, v)"
proof -
  have "cut '' '' (m @ CHR '' '' # p @ CHR '' '' # v) = Some (m, p @ CHR '' '' # v)"
    using assms(1) by (rule cut_single_Some)
  moreover have "cut '' '' (p @ CHR '' '' # v) = Some (p, v)"
    using assms(2) by (rule cut_single_Some)
  ultimately have "py_split_max (m @ CHR '' '' # p @ CHR '' '' # v) '' '' 2 = [m, p, v]"
    by (simp only: py_split_max_two option.case prod.case)
  then show ?thesis
    by (simp add: parse_request_line_def unpack3_def del: py_split_max.simps)
qed

lemma few_occurrences:
  assumes "length (filter (\<lambda>x. x = c) s) < 2"
  shows "c \<notin> set s \<or> (\<exists>a b. s = a @ c # b \<and> c \<notin> set a \<and> c \<notin> set b)"
proof (cases "c \<in> set s")
  case False
  then show ?thesis by simp
next
  case True
  from split_at_first [OF True] obtain a b where ab: "s = a @ c # b" "c \<notin> set a"
    by auto
  have "length (filter (\<lambda>x. x = c) s) = length (filter (\<lambda>x. x = c) a) + 1 + length (filter (\<lambda>x. x = c) b)"
    by (simp add: ab(1))
  with assms have "length (filter (\<lambda>x. x = c) b) = 0"
    by simp
  then have "c \<notin> set b"
    by (induction b) (auto split: if_splits)
  with ab show ?thesis by blast
qed

lemma request_line_few_spaces:
  assumes "length (filter (\<lambda>x. x = CHR '' '') line) < 2"
  shows "parse_request_line line = (''UNKNOWN'', ''/'', ''HTTP/1.1'')"
  using few_occurrences [OF assms]
proof (elim disjE exE conjE)
  assume "CHR '' '' \<notin> set line"
  then show ?thesis by (rule request_line_no_space)
next
  fix a b
  assume l: "line = a @ CHR '' '' # b" and a: "CHR '' '' \<notin> set a" and b: "CHR '' '' \<notin> set b"
  show ?thesis unfolding l using a b by (rule request_line_one_space)
qed

lemma header_line_without_colon:
  assumes "line \<noteq> []" and "CHR '':'' \<notin> set line"
  shows "parse_headers (line # rest) hs = parse_headers rest hs"
  using assms by (simp add: cut_single_None unpack2_def)

lemma header_line_with_colon:
  assumes "CHR '':'' \<notin> set k"
  shows "parse_headers ((k @ CHR '':'' # v) # rest) hs =
           parse_headers rest (hs(py_lower (py_strip k) \<mapsto> py_strip v))"
  using assms by (simp add: cut_single_Some unpack2_def)

lemma parse_headers_skips:
  "parse_headers ls hs = parse_headers (filter (\<lambda>l. l = [] \<or> CHR '':'' \<in> set l) ls) hs"
proof (induction ls arbitrary: hs)
  case Nil
  then show ?case by simp
next
  case (Cons l ls)
  let ?keep = "\<lambda>l. l = [] \<or> CHR '':'' \<in> set l"
  show ?case
  proof (cases "l = []")
    case True
    then show ?thesis by simp
  next
    case False
    show ?thesis
    proof (cases "CHR '':'' \<in> set l")
      case True
      from split_at_first [OF True] obtain k v where l: "l = k @ CHR '':'' # v" "CHR '':'' \<notin> set k"
        by auto
      let ?hs = "hs(py_lower (py_strip k) \<mapsto> py_strip v)"
      have keep: "filter ?keep (l # ls) = l # filter ?keep ls"
        using True by simp
      have "parse_headers (l # ls) hs = parse_headers ls ?hs"
        unfolding l(1) using l(2) by (rule header_line_with_colon)
      also have "\<dots> = parse_headers (filter ?keep ls) ?hs"
        by (rule Cons.IH)
      also have "\<dots> = parse_headers (l # filter ?keep ls) hs"
        unfolding l(1) using l(2) by (rule header_line_with_colon [symmetric])
      also have "\<dots> = parse_headers (filter ?keep (l # ls)) hs"
        by (simp only: keep)
      finally show ?thesis .
    next
      case no: False
      have drop: "filter ?keep (l # ls) = filter ?keep ls"
        using False no by simp
      have "parse_headers (l # ls) hs = parse_headers ls hs"
        using False no by (rule header_line_without_colon)
      also have "\<dots> = parse_headers (filter ?keep ls) hs"
        by (rule Cons.IH)
      also have "\<dots> = parse_headers (filter ?keep (l # ls)) hs"
        by (simp only: drop)
      finally show ?thesis .
    qed
  qed
qed

lemma lower_char_idem: "lower_char (lower_char c) = lower_char c"
proof (cases "(65 \<le> (of_char c :: nat) \<and> (of_char c :: nat) \<le> 90)
    \<or> (192 \<le> (of_char c :: nat) \<and> (of_char c :: nat) \<le> 222 \<and> (of_char c :: nat) \<noteq> 215)")
  case False
  then have "lower_char c = c"
    unfolding lower_char_def Let_def by (simp only: if_False)
  then show ?thesis by simp
next
  case True
  then have low: "lower_char c = char_of ((of_char c :: nat) + 32)"
    by (simp add: lower_char_def Let_def)
  from True have small: "(of_char c :: nat) + 32 < 256" by auto
  have "(of_char (char_of ((of_char c :: nat) + 32)) :: nat) = ((of_char c :: nat) + 32) mod 256"
    by simp
  with small have code: "(of_char (char_of ((of_char c :: nat) + 32)) :: nat) = (of_char c :: nat) + 32"
    by simp
  have "lower_char (char_of ((of_char c :: nat) + 32)) = char_of ((of_char c :: nat) + 32)"
    unfolding lower_char_def Let_def code using True by auto
  with low show ?thesis by simp
qed

lemma py_lower_idem: "py_lower (py_lower s) = py_lower s"
  by (simp add: py_lower_def lower_char_idem)

lemma parse_headers_keys:
  "k \<in> dom (parse_headers ls hs) \<Longrightarrow> k \<in> dom hs \<or> py_lower k = k"
proof (induction ls arbitrary: hs)
  case Nil
  then show ?case by simp
next
  case (Cons l ls)
  show ?case
  proof (cases "l = []")
    case True
    with Cons.prems show ?thesis by simp
  next
    case False
    show ?thesis
    proof (cases "CHR '':'' \<in> set l")
      case True
      from split_at_first [OF True] obtain a b where l: "l = a @ CHR '':'' # b" "CHR '':'' \<notin> set a"
        by auto
      have "parse_headers (l # ls) hs = parse_headers ls (hs(py_lower (py_strip a) \<mapsto> py_strip b))"
        unfolding l(1) using l(2) by (rule header_line_with_colon)
      with Cons.prems have "k \<in> dom (parse_headers ls (hs(py_lower (py_strip a) \<mapsto> py_strip b)))"
        by simp
      from Cons.IH [OF this] show ?thesis
        by (auto simp: py_lower_idem split: if_splits)
    next
      case no: False
      have "parse_headers (l # ls) hs = parse_headers ls hs"
        using False no by (rule header_line_without_colon)
      with Cons.prems have "k \<in> dom (parse_headers ls hs)"
        by simp
      from Cons.IH [OF this] show ?thesis .
    qed
  qed
qed

lemma parse_request_Some:
  "\<exists>r. parse_request request_text = Some r
       \<and> (req_method r, req_path r, req_version r) = parse_request_line (hd (py_split request_text CRLF))
       \<and> req_headers r = parse_headers (tl (py_split request_text CRLF)) Map.empty"
proof (cases "py_split request_text CRLF")
  case Nil
  then show ?thesis by (simp add: py_split_def py_split_max_nonempty)
next
  case (Cons first rest)
  then show ?thesis by (simp add: parse_request_def Let_def)
qed

text \<open>\<^verbatim>\<open>split\<close> with no limit: any bound from the length of the text on gives the same list.\<close>

lemma cut_shorter: "sep \<noteq> [] \<Longrightarrow> cut sep s = Some (a, b) \<Longrightarrow> length b < length s"
proof (induction s arbitrary: a)
  case Nil
  then show ?case by simp
next
  case (Cons c cs)
  show ?case
  proof (cases "take (length sep) (c # cs) = sep")
    case True
    with Cons.prems have "b = drop (length sep) (c # cs)" by simp
    with Cons.prems(1) show ?thesis by (cases sep) simp_all
  next
    case False
    with Cons.prems obtain a' where "cut sep cs = Some (a', b)"
      by (auto split: option.splits)
    from Cons.IH [OF Cons.prems(1) this] show ?thesis by simp
  qed
qed

lemma py_split_max_enough:
  "sep \<noteq> [] \<Longrightarrow> length s \<le> n \<Longrightarrow> length s \<le> m \<Longrightarrow> py_split_max s sep n = py_split_max s sep m"
proof (induction n arbitrary: s m)
  case 0
  then show ?case by (cases m) simp_all
next
  case (Suc n)
  show ?case
  proof (cases m)
    case 0
    with Suc.prems show ?thesis by simp
  next
    case (Suc m')
    show ?thesis
    proof (cases "cut sep s")
      case None
      then show ?thesis using Suc by simp
    next
      case (Some ab)
      obtain a b where ab: "ab = (a, b)" by (cases ab)
      with Some Suc.prems(1) have "length b < length s"
        using cut_shorter by blast
      with Suc.prems \<open>m = Suc m'\<close> have "length b \<le> n" and "length b \<le> m'"
        by simp_all
      from Suc.IH [OF Suc.prems(1) this] show ?thesis
        using Some ab \<open>m = Suc m'\<close> by simp
    qed
  qed
qed

lemma py_split_any_fuel:
  "sep \<noteq> [] \<Longrightarrow> length s \<le> n \<Longrightarrow> py_split s sep = py_split_max s sep n"
  unfolding py_split_def by (rule py_split_max_enough) simp_all

section \<open>What the dispatcher sends, and when it sends nothing\<close>

lemma send_response_frame:
  assumes "active_sessions self sid = Some sess"
    and "sock_connected (client_socket sess)" and "\<not> sock_closed (client_socket sess)"
  shows "stream_of (send_response now self sid (JObj kvs)) sid =
           Some (sock_sent (client_socket sess) @ [''data: '' @ json_dumps (JObj kvs) @ CRLF @ CRLF])"
  using assms
  by (simp add: send_response_def send_message_def sendall_def stream_of_def)

lemma send_response_unknown_session:
  "active_sessions self sid = None \<Longrightarrow> send_response now self sid response = self"
  by (simp add: send_response_def)

lemma params_not_an_object_is_silent:
  assumes "loads request_data = Some (JObj kvs)"
    and "dict_get kvs ''method'' (JStr []) \<in> {JStr ''initialize'', JStr ''tools/run'', JStr ''tools/call''}"
    and "\<forall>ps. map_of kvs ''params'' \<noteq> Some (JObj ps)" and "map_of kvs ''params'' \<noteq> None"
  shows "handle_jsonrpc_request loads now self sid request_data = self"
proof -
  from assms(3,4) obtain p where p: "map_of kvs ''params'' = Some p" "\<forall>ps. p \<noteq> JObj ps"
    by auto
  then have get: "\<And>key dflt. py_get p key dflt = Inl AttributeError"
    by (cases p) (simp_all add: py_get_def)
  have "dict_get kvs ''params'' (JObj []) = p"
    using p(1) by (simp add: dict_get_def)
  then have "dispatch now self sid (JObj kvs) = Inl AttributeError"
    using assms(2) by (auto simp: dispatch_obj Let_def get)
  then show ?thesis
    using assms(1) by (simp add: handle_jsonrpc_request_def)
qed

lemma request_not_an_object_is_silent:
  assumes "loads request_data = Some request" and "\<forall>kvs. request \<noteq> JObj kvs"
  shows "handle_jsonrpc_request loads now self sid request_data = self"
proof -
  have "py_get request ''method'' (JStr []) = Inl AttributeError"
    using assms(2) by (cases request) (simp_all add: py_get_def)
  then have "dispatch now self sid request = Inl AttributeError"
    by (simp add: dispatch_def)
  then show ?thesis
    using assms(1) by (simp add: handle_jsonrpc_request_def)
qed

lemma undecodable_request_is_silent:
  "loads request_data = None \<Longrightarrow> handle_jsonrpc_request loads now self sid request_data = self"
  by (simp add: handle_jsonrpc_request_def)

section \<open>What the message-submit handler answers\<close>

lemma path_with_unknown_session_is_404:
  assumes "py_find path ''?'' \<noteq> - 1"
    and "case parse_qs (drop (nat (py_find path ''?'' + 1)) path) ''session_id'' of
           None \<Rightarrow> True
         | Some l \<Rightarrow> l = [] \<or> hd l \<notin> dom (active_sessions self)"
  shows "messages_response loads parse_qs now self path headers body = (self, response_404)"
  using assms by (auto simp: messages_response_def Let_def split: option.splits)

lemma path_without_query_is_400:
  assumes "py_find path ''?'' = - 1"
  shows "messages_response loads parse_qs now self path headers body = (self, response_400)"
  using assms by (simp add: messages_response_def)

lemma handle_messages_request_writes:
  assumes "sock_connected client" and "\<not> sock_closed client"
  shows "handle_messages_request loads parse_qs now self client path headers body =
           (fst (messages_response loads parse_qs now self path headers body),
            Inr (client\<lparr>sock_closed := True,
                        sock_sent := sock_sent client
                          @ [snd (messages_response loads parse_qs now self path headers body)]\<rparr>))"
  using assms by (simp add: handle_messages_request_def Let_def sendall_def sock_close_def)

section \<open>The claims\<close>

text \<open>
  C10. The message-submit handler answers a path with no \<^verbatim>\<open>?\<close> with its fixed 400 text, and
  a path with a query string whose \<^verbatim>\<open>session_id\<close> is missing or names no open session with
  its fixed 404 text; on a connection that takes the write, that text is what it sends
  before it closes the socket. Both texts declare a \<^verbatim>\<open>Content-Length\<close> that is not the
  length of their body: read back with the server's own request parser, the 404 text
  declares 13 and carries the 15 characters of \<^verbatim>\<open>Invalid session\<close>, the 400 text declares 22
  and carries the 24 characters of \<^verbatim>\<open>Missing session_id param\<close>.
\<close>

theorem content_length_mismatch:
  "map_option (\<lambda>r. (req_headers r ''content-length'', req_body r, length (req_body r)))
     (parse_request response_404) = Some (Some ''13'', ''Invalid session'', 15)
   \<and> map_option (\<lambda>r. (req_headers r ''content-length'', req_body r, length (req_body r)))
     (parse_request response_400) = Some (Some ''22'', ''Missing session_id param'', 24)
   \<and> (py_find path ''?'' = - 1 \<longrightarrow>
        messages_response loads parse_qs now self path headers body = (self, response_400))
   \<and> (py_find path ''?'' \<noteq> - 1
        \<and> (case parse_qs (drop (nat (py_find path ''?'' + 1)) path) ''session_id'' of
              None \<Rightarrow> True
            | Some l \<Rightarrow> l = [] \<or> hd l \<notin> dom (active_sessions self)) \<longrightarrow>
        messages_response loads parse_qs now self path headers body = (self, response_404))
   \<and> (sock_connected client \<and> \<not> sock_closed client \<longrightarrow>
        handle_messages_request loads parse_qs now self client path headers body =
          (fst (messages_response loads parse_qs now self path headers body),
           Inr (client\<lparr>sock_closed := True,
                       sock_sent := sock_sent client
                         @ [snd (messages_response loads parse_qs now self path headers body)]\<rparr>)))"
proof (intro conjI impI)
  show "map_option (\<lambda>r. (req_headers r ''content-length'', req_body r, length (req_body r)))
     (parse_request response_404) = Some (Some ''13'', ''Invalid session'', 15)"
    by (simp add: response_404_def text_defs parse_defs)
  show "map_option (\<lambda>r. (req_headers r ''content-length'', req_body r, length (req_body r)))
     (parse_request response_400) = Some (Some ''22'', ''Missing session_id param'', 24)"
    by (simp add: response_400_def text_defs parse_defs)
next
  assume "py_find path ''?'' = - 1"
  then show "messages_response loads parse_qs now self path headers body = (self, response_400)"
    by (rule path_without_query_is_400)
next
  assume a: "py_find path ''?'' \<noteq> - 1
        \<and> (case parse_qs (drop (nat (py_find path ''?'' + 1)) path) ''session_id'' of
              None \<Rightarrow> True
            | Some l \<Rightarrow> l = [] \<or> hd l \<notin> dom (active_sessions self))"
  from a have a1: "py_find path ''?'' \<noteq> - 1"
    and a2: "case parse_qs (drop (nat (py_find path ''?'' + 1)) path) ''session_id'' of
              None \<Rightarrow> True
            | Some l \<Rightarrow> l = [] \<or> hd l \<notin> dom (active_sessions self)"
    by simp_all
  from a1 a2 show "messages_response loads parse_qs now self path headers body = (self, response_404)"
    by (rule path_with_unknown_session_is_404)
next
  assume a: "sock_connected client \<and> \<not> sock_closed client"
  show "handle_messages_request loads parse_qs now self client path headers body =
          (fst (messages_response loads parse_qs now self path headers body),
           Inr (client\<lparr>sock_closed := True,
                       sock_sent := sock_sent client
                         @ [snd (messages_response loads parse_qs now self path headers body)]\<rparr>))"
    using a by (intro handle_messages_request_writes) simp_all
qed

theorem content_length_mismatch_witness:
  "py_find ''/messages/'' ''?'' = - 1
   \<and> handle_messages_request (loads_as JNull) (\<lambda>q. Map.empty) ''t'' plain_server open_sock
        ''/messages/'' Map.empty ''{}'' =
       (plain_server, Inr \<lparr>sock_connected = True, sock_closed = True, sock_sent = [response_400]\<rparr>)
   \<and> py_find ''/messages/?session_id=nope'' ''?'' = 10
   \<and> handle_messages_request (loads_as JNull) (\<lambda>q. [''session_id'' \<mapsto> [''nope'']]) ''t'' plain_server
        open_sock ''/messages/?session_id=nope'' Map.empty ''{}'' =
       (plain_server, Inr \<lparr>sock_connected = True, sock_closed = True, sock_sent = [response_404]\<rparr>)"
  using content_length_mismatch
      [of "''/messages/''" "loads_as JNull" "\<lambda>q. Map.empty" "''t''" plain_server Map.empty "''{}''" open_sock]
    content_length_mismatch
      [of "''/messages/?session_id=nope''" "loads_as JNull" "\<lambda>q. [''session_id'' \<mapsto> [''nope'']]"
          "''t''" plain_server Map.empty "''{}''" open_sock]
  by (simp add: py_find_def open_sock_def plain_server_def create_session_def new_server_def)

lemma sendall_ok:
  "sock_connected s \<Longrightarrow> \<not> sock_closed s \<Longrightarrow> sendall s m = Inr (s\<lparr>sock_sent := sock_sent s @ [m]\<rparr>)"
  by (simp add: sendall_def)

lemma sendall_fails_any: "sendall s m = Inl e \<Longrightarrow> sendall s m' = Inl OSError"
  by (simp add: sendall_def split: if_splits)

lemma spec_payload_eq: "spec_payload d = (case d of JObj kvs \<Rightarrow> json_dumps d | _ \<Rightarrow> py_str d)"
  by (cases d) (simp_all add: spec_payload_def py_str_def)

text \<open>
  C7. On a connection that takes the write, \<^verbatim>\<open>send_message\<close> returns \<^verbatim>\<open>True\<close> and
  appends exactly the frame of the specification to what the socket was sent: the
  comment line for \<^verbatim>\<open>ping\<close>, otherwise the \<^verbatim>\<open>event:\<close> line unless the type is
  \<^verbatim>\<open>message\<close>, then the \<^verbatim>\<open>data:\<close> line and the blank line. The JSON text of a payload
  holds neither a carriage return nor a line feed.
\<close>

theorem send_message_emits_spec_frame:
  assumes "sock_connected (client_socket sess)" and "\<not> sock_closed (client_socket sess)"
  shows "send_message now sess event_type payload =
           (True, sess\<lparr>client_socket := (client_socket sess)
              \<lparr>sock_sent := sock_sent (client_socket sess) @ [spec_frame now event_type payload]\<rparr>\<rparr>)
         \<and> CR \<notin> set (json_dumps payload) \<and> LF \<notin> set (json_dumps payload)"
proof -
  have "send_message now sess event_type payload =
           (True, sess\<lparr>client_socket := (client_socket sess)
              \<lparr>sock_sent := sock_sent (client_socket sess) @ [spec_frame now event_type payload]\<rparr>\<rparr>)"
    using assms by (simp add: send_message_def sendall_ok spec_frame_def spec_payload_eq)
  then show ?thesis
    using json_dumps_single_line [of payload] by simp
qed

theorem send_message_emits_spec_frame_witness:
  "sock_connected (client_socket (new_session ''s1'' open_sock))
   \<and> \<not> sock_closed (client_socket (new_session ''s1'' open_sock))
   \<and> send_message ''2026-01-01T00:00:00'' (new_session ''s1'' open_sock) ''endpoint'' (JObj [(''id'', JInt 1)]) =
       (True, \<lparr>session_id = ''s1'',
                client_socket = \<lparr>sock_connected = True, sock_closed = False,
                  sock_sent = [''event: endpoint'' @ CRLF @ ''data: {'' @ [DQUOTE] @ ''id'' @ [DQUOTE] @ '': 1}'' @ CRLF @ CRLF]\<rparr>,
                is_active = True\<rparr>)"
  using send_message_emits_spec_frame [of "new_session ''s1'' open_sock" "''2026-01-01T00:00:00''" "''endpoint''" "JObj [(''id'', JInt 1)]"]
  by (simp add: new_session_def open_sock_def spec_frame_def spec_payload_def json_string_def
      json_escape_char_def str_int_def str_nat.simps digit_char_def DQUOTE_def BSLASH_def)

text \<open>
  C9. When the write fails, \<^verbatim>\<open>send_message\<close> returns \<^verbatim>\<open>False\<close> and the session differs
  only in \<^verbatim>\<open>is_active\<close>, now \<^verbatim>\<open>False\<close>; sent through \<^verbatim>\<open>_send_response\<close>, the registry
  keeps the same ids, the session stays under its id and nothing else of the server
  changes.
\<close>

theorem send_message_write_failure:
  assumes "sendall (client_socket sess) m = Inl e" and "active_sessions self sid = Some sess"
  shows "send_message now sess event_type payload = (False, sess\<lparr>is_active := False\<rparr>)
         \<and> send_response now self sid response =
             self\<lparr>active_sessions := (active_sessions self)(sid \<mapsto> sess\<lparr>is_active := False\<rparr>)\<rparr>
         \<and> dom (active_sessions (send_response now self sid response)) = dom (active_sessions self)"
proof -
  have fail: "\<And>m'. sendall (client_socket sess) m' = Inl OSError"
    using assms(1) by (rule sendall_fails_any)
  have one: "\<And>ev d. send_message now sess ev d = (False, sess\<lparr>is_active := False\<rparr>)"
    by (simp add: send_message_def fail)
  have two: "send_response now self sid response =
      self\<lparr>active_sessions := (active_sessions self)(sid \<mapsto> sess\<lparr>is_active := False\<rparr>)\<rparr>"
    by (simp add: send_response_def assms(2) one)
  have "dom (active_sessions (send_response now self sid response)) = dom (active_sessions self)"
    using assms(2) by (auto simp: two)
  with one two show ?thesis by simp
qed

theorem send_message_write_failure_witness:
  "sendall (client_socket (new_session ''s1'' broken_sock)) ''x'' = Inl OSError
   \<and> active_sessions (create_session (new_server None) ''s1'' broken_sock) ''s1'' = Some (new_session ''s1'' broken_sock)
   \<and> send_message ''t'' (new_session ''s1'' broken_sock) ''ping'' JNull =
        (False, \<lparr>session_id = ''s1'', client_socket = broken_sock, is_active = False\<rparr>)
   \<and> dom (active_sessions (send_response ''t'' (create_session (new_server None) ''s1'' broken_sock) ''s1'' (JObj []))) = {''s1''}"
  using send_message_write_failure [of "new_session ''s1'' broken_sock" "''x''" OSError
      "create_session (new_server None) ''s1'' broken_sock" "''s1''" "''t''" "''ping''" JNull "JObj []"]
  by (simp add: new_session_def broken_sock_def create_session_def new_server_def sendall_def)

text \<open>
  C3. A \<^verbatim>\<open>tools/call\<close> or \<^verbatim>\<open>tools/run\<close> request whose \<^verbatim>\<open>params\<close> is absent or an object,
  naming a registered tool whose handler returns \<open>result\<close>: the dispatcher sends one
  response, and its \<^verbatim>\<open>result\<close> member is \<open>result\<close> itself, beside the echoed
  \<^verbatim>\<open>jsonrpc\<close> and \<^verbatim>\<open>id\<close>.
\<close>

theorem tools_call_result_is_handler_result:
  assumes "loads request_data = Some (JObj kvs)"
    and "dict_get kvs ''method'' (JStr []) = JStr m" and "m = ''tools/call'' \<or> m = ''tools/run''"
    and "dict_get kvs ''params'' (JObj []) = JObj ps"
    and "dict_get ps ''name'' (JStr []) = JStr name"
    and "map_of (tool_handlers self) name = Some t"
    and "handler t (dict_get ps ''arguments'' (JObj [])) = Inr result"
  shows "handle_jsonrpc_request loads now self sid request_data =
           send_response now self sid
             (JObj [(''jsonrpc'', dict_get kvs ''jsonrpc'' (JStr ''2.0'')),
                    (''id'', dict_get kvs ''id'' JNull),
                    (''result'', result)])"
proof -
  have "dispatch now self sid (JObj kvs) =
      Inr (send_response now self sid
        (rpc_result (dict_get kvs ''jsonrpc'' (JStr ''2.0'')) (dict_get kvs ''id'' JNull) result))"
    using assms(5-7) by (simp add: dispatch_tools [OF assms(2-4)] find_tool_str)
  then show ?thesis
    using assms(1) by (simp add: handle_jsonrpc_request_def rpc_result_def)
qed

theorem tools_call_result_is_handler_result_witness:
  "dict_get [(''jsonrpc'', JStr ''2.0''), (''id'', JInt 1), (''method'', JStr ''tools/call''),
             (''params'', JObj [(''name'', JStr ''echo'')])] ''method'' (JStr []) = JStr ''tools/call''
   \<and> map_of (tool_handlers demo_server) ''echo'' =
        Some \<lparr>description = ''Echo'', input_schema = JObj [], handler = (\<lambda>args. Inr echo_result)\<rparr>
   \<and> handle_jsonrpc_request
        (\<lambda>d. Some (JObj [(''jsonrpc'', JStr ''2.0''), (''id'', JInt 1), (''method'', JStr ''tools/call''),
                          (''params'', JObj [(''name'', JStr ''echo'')])]))
        ''t'' demo_server ''s1'' ''body'' =
      send_response ''t'' demo_server ''s1''
        (JObj [(''jsonrpc'', JStr ''2.0''), (''id'', JInt 1), (''result'', echo_result)])
   \<and> stream_of (send_response ''t'' demo_server ''s1''
        (JObj [(''jsonrpc'', JStr ''2.0''), (''id'', JInt 1), (''result'', echo_result)])) ''s1'' =
      Some [''data: {'' @ quoted ''jsonrpc'' @ '': '' @ quoted ''2.0'' @ '', '' @ quoted ''id'' @ '': 1, ''
            @ quoted ''result'' @ '': {'' @ quoted ''content'' @ '': [{'' @ quoted ''type'' @ '': ''
            @ quoted ''text'' @ '', '' @ quoted ''text'' @ '': '' @ quoted ''X'' @ ''}], ''
            @ quoted ''isError'' @ '': false}}'' @ CRLF @ CRLF]"
  using tools_call_result_is_handler_result
    [of "\<lambda>d. Some (JObj [(''jsonrpc'', JStr ''2.0''), (''id'', JInt 1), (''method'', JStr ''tools/call''),
                          (''params'', JObj [(''name'', JStr ''echo'')])])"
        "''body''"
        "[(''jsonrpc'', JStr ''2.0''), (''id'', JInt 1), (''method'', JStr ''tools/call''),
          (''params'', JObj [(''name'', JStr ''echo'')])]"
        "''tools/call''" "[(''name'', JStr ''echo'')]" "''echo''" demo_server
        "\<lparr>description = ''Echo'', input_schema = JObj [], handler = (\<lambda>args. Inr echo_result)\<rparr>"
        echo_result "''t''" "''s1''"]
  by (simp add: dict_get_def server_defs send_response_def send_message_def sendall_def stream_of_def
      echo_result_def dumps_defs)


text \<open>
  C4. A \<^verbatim>\<open>tools/call\<close> or \<^verbatim>\<open>tools/run\<close> request whose \<^verbatim>\<open>params\<close> is absent or an object,
  naming a tool that is not registered: the dispatcher sends one response, the error
  object with code \<open>-32601\<close> and the message \<^verbatim>\<open>Tool not found: \<close> followed by the name.
\<close>

theorem tools_call_unknown_tool:
  assumes "loads request_data = Some (JObj kvs)"
    and "dict_get kvs ''method'' (JStr []) = JStr m" and "m = ''tools/call'' \<or> m = ''tools/run''"
    and "dict_get kvs ''params'' (JObj []) = JObj ps"
    and "dict_get ps ''name'' (JStr []) = JStr name"
    and "map_of (tool_handlers self) name = None"
  shows "handle_jsonrpc_request loads now self sid request_data =
           send_response now self sid
             (JObj [(''jsonrpc'', dict_get kvs ''jsonrpc'' (JStr ''2.0'')),
                    (''id'', dict_get kvs ''id'' JNull),
                    (''error'', JObj [(''code'', JInt (- 32601)),
                                      (''message'', JStr (''Tool not found: '' @ name))])])"
proof -
  have "dispatch now self sid (JObj kvs) =
      Inr (send_response now self sid
        (rpc_error (dict_get kvs ''jsonrpc'' (JStr ''2.0'')) (dict_get kvs ''id'' JNull) (- 32601)
           (''Tool not found: '' @ name)))"
    using assms(5-6) by (simp add: dispatch_tools [OF assms(2-4)] find_tool_str py_str_def)
  then show ?thesis
    using assms(1) by (simp add: handle_jsonrpc_request_def rpc_error_def)
qed

theorem tools_call_unknown_tool_witness:
  "dict_get [(''jsonrpc'', JStr ''2.0''), (''id'', JInt 7), (''method'', JStr ''tools/run''),
             (''params'', JObj [(''name'', JStr ''nope'')])] ''method'' (JStr []) = JStr ''tools/run''
   \<and> map_of (tool_handlers demo_server) ''nope'' = None
   \<and> stream_of (handle_jsonrpc_request
        (\<lambda>d. Some (JObj [(''jsonrpc'', JStr ''2.0''), (''id'', JInt 7), (''method'', JStr ''tools/run''),
                          (''params'', JObj [(''name'', JStr ''nope'')])]))
        ''t'' demo_server ''s1'' ''body'') ''s1'' =
      Some [''data: {'' @ quoted ''jsonrpc'' @ '': '' @ quoted ''2.0'' @ '', '' @ quoted ''id'' @ '': 7, ''
            @ quoted ''error'' @ '': {'' @ quoted ''code'' @ '': -32601, '' @ quoted ''message'' @ '': ''
            @ quoted ''Tool not found: nope'' @ ''}}'' @ CRLF @ CRLF]"
  using tools_call_unknown_tool
    [of "\<lambda>d. Some (JObj [(''jsonrpc'', JStr ''2.0''), (''id'', JInt 7), (''method'', JStr ''tools/run''),
                          (''params'', JObj [(''name'', JStr ''nope'')])])"
        "''body''"
        "[(''jsonrpc'', JStr ''2.0''), (''id'', JInt 7), (''method'', JStr ''tools/run''),
          (''params'', JObj [(''name'', JStr ''nope'')])]"
        "''tools/run''" "[(''name'', JStr ''nope'')]" "''nope''" demo_server "''t''" "''s1''"]
  by (simp add: dict_get_def server_defs send_response_def send_message_def sendall_def stream_of_def
      dumps_defs)

text \<open>
  C5. A \<^verbatim>\<open>tools/call\<close> or \<^verbatim>\<open>tools/run\<close> request whose \<^verbatim>\<open>params\<close> is absent or an object,
  naming a registered tool whose handler raises an exception with text \<open>msg\<close>: the
  body of the dispatcher raises nothing and sends one response, the error object with
  code \<open>-32603\<close> and the message \<^verbatim>\<open>Tool execution failed: \<close> followed by \<open>msg\<close>.
\<close>

theorem tools_call_handler_raises:
  assumes "loads request_data = Some (JObj kvs)"
    and "dict_get kvs ''method'' (JStr []) = JStr m" and "m = ''tools/call'' \<or> m = ''tools/run''"
    and "dict_get kvs ''params'' (JObj []) = JObj ps"
    and "dict_get ps ''name'' (JStr []) = JStr name"
    and "map_of (tool_handlers self) name = Some t"
    and "handler t (dict_get ps ''arguments'' (JObj [])) = Inl msg"
  shows "dispatch now self sid (JObj kvs) =
           Inr (send_response now self sid
             (JObj [(''jsonrpc'', dict_get kvs ''jsonrpc'' (JStr ''2.0'')),
                    (''id'', dict_get kvs ''id'' JNull),
                    (''error'', JObj [(''code'', JInt (- 32603)),
                                      (''message'', JStr (''Tool execution failed: '' @ msg))])]))
         \<and> handle_jsonrpc_request loads now self sid request_data =
           send_response now self sid
             (JObj [(''jsonrpc'', dict_get kvs ''jsonrpc'' (JStr ''2.0'')),
                    (''id'', dict_get kvs ''id'' JNull),
                    (''error'', JObj [(''code'', JInt (- 32603)),
                                      (''message'', JStr (''Tool execution failed: '' @ msg))])])"
proof -
  have "dispatch now self sid (JObj kvs) =
      Inr (send_response now self sid
        (rpc_error (dict_get kvs ''jsonrpc'' (JStr ''2.0'')) (dict_get kvs ''id'' JNull) (- 32603)
           (''Tool execution failed: '' @ msg)))"
    using assms(5-7) by (simp add: dispatch_tools [OF assms(2-4)] find_tool_str)
  then show ?thesis
    using assms(1) by (simp add: handle_jsonrpc_request_def rpc_error_def)
qed

theorem tools_call_handler_raises_witness:
  "dict_get [(''id'', JStr ''a''), (''method'', JStr ''tools/call''),
             (''params'', JObj [(''name'', JStr ''fail''), (''arguments'', JObj [])])] ''method'' (JStr [])
     = JStr ''tools/call''
   \<and> map_of (tool_handlers demo_server) ''fail'' =
        Some \<lparr>description = ''Fail'', input_schema = JObj [], handler = (\<lambda>args. Inl ''boom'')\<rparr>
   \<and> stream_of (handle_jsonrpc_request
        (\<lambda>d. Some (JObj [(''id'', JStr ''a''), (''method'', JStr ''tools/call''),
                          (''params'', JObj [(''name'', JStr ''fail''), (''arguments'', JObj [])])]))
        ''t'' demo_server ''s1'' ''body'') ''s1'' =
      Some [''data: {'' @ quoted ''jsonrpc'' @ '': '' @ quoted ''2.0'' @ '', '' @ quoted ''id'' @ '': ''
            @ quoted ''a'' @ '', '' @ quoted ''error'' @ '': {'' @ quoted ''code'' @ '': -32603, ''
            @ quoted ''message'' @ '': '' @ quoted ''Tool execution failed: boom'' @ ''}}'' @ CRLF @ CRLF]"
  using tools_call_handler_raises
    [of "\<lambda>d. Some (JObj [(''id'', JStr ''a''), (''method'', JStr ''tools/call''),
                          (''params'', JObj [(''name'', JStr ''fail''), (''arguments'', JObj [])])])"
        "''body''"
        "[(''id'', JStr ''a''), (''method'', JStr ''tools/call''),
          (''params'', JObj [(''name'', JStr ''fail''), (''arguments'', JObj [])])]"
        "''tools/call''" "[(''name'', JStr ''fail''), (''arguments'', JObj [])]" "''fail''" demo_server
        "\<lparr>description = ''Fail'', input_schema = JObj [], handler = (\<lambda>args. Inl ''boom'')\<rparr>"
        "''boom''" "''t''" "''s1''"]
  by (simp add: dict_get_def server_defs send_response_def send_message_def sendall_def stream_of_def
      dumps_defs)

text \<open>
  C6, as the claim states it, fails: the \<^verbatim>\<open>initialize\<close> request
  \<^verbatim>\<open>{"jsonrpc": "2.0", "id": 1, "method": "initialize", "params": null}\<close> has an \<^verbatim>\<open>id\<close> and no
  \<^verbatim>\<open>params.protocolVersion\<close>, yet \<^verbatim>\<open>params.get\<close> raises \<^verbatim>\<open>AttributeError\<close>, the \<^verbatim>\<open>except\<close> clause
  only logs, the server is left as it was and the stream of the session stays empty: no
  response with \<^verbatim>\<open>protocolVersion\<close> \<^verbatim>\<open>2024-11-05\<close> is sent.
\<close>

theorem initialize_with_null_params_counterexample:
  "dict_get [(''jsonrpc'', JStr ''2.0''), (''id'', JInt 1), (''method'', JStr ''initialize''),
             (''params'', JNull)] ''method'' (JStr []) = JStr ''initialize''
   \<and> dict_get [(''jsonrpc'', JStr ''2.0''), (''id'', JInt 1), (''method'', JStr ''initialize''),
               (''params'', JNull)] ''id'' JNull = JInt 1
   \<and> handle_jsonrpc_request
        (loads_as (JObj [(''jsonrpc'', JStr ''2.0''), (''id'', JInt 1), (''method'', JStr ''initialize''),
                         (''params'', JNull)]))
        ''t'' plain_server ''s1'' ''body'' = plain_server
   \<and> stream_of (handle_jsonrpc_request
        (loads_as (JObj [(''jsonrpc'', JStr ''2.0''), (''id'', JInt 1), (''method'', JStr ''initialize''),
                         (''params'', JNull)]))
        ''t'' plain_server ''s1'' ''body'') ''s1'' = Some []
   \<and> stream_of (send_response ''t'' plain_server ''s1''
        (JObj [(''jsonrpc'', JStr ''2.0''), (''id'', JInt 1),
               (''result'', JObj [(''protocolVersion'', JStr ''2024-11-05''),
                                  (''capabilities'', capabilities plain_server),
                                  (''serverInfo'', server_info plain_server)])])) ''s1'' \<noteq> Some []"
  by (simp add: loads_as_def handle_jsonrpc_request_def dispatch_obj Let_def py_get_def dict_get_def
      server_defs send_response_def send_message_def sendall_def stream_of_def)

text \<open>
  C6, as amended. An \<^verbatim>\<open>initialize\<close> request whose \<^verbatim>\<open>params\<close> is absent or an object: the
  dispatcher sends one response, and its \<^verbatim>\<open>result.protocolVersion\<close> is the
  \<^verbatim>\<open>protocolVersion\<close> of \<^verbatim>\<open>params\<close> when that key is present and \<^verbatim>\<open>2024-11-05\<close> when it is
  not. An \<^verbatim>\<open>initialize\<close> request whose \<^verbatim>\<open>params\<close> is anything else (\<^verbatim>\<open>null\<close>, an array, a
  text, a number) raises inside the \<^verbatim>\<open>try\<close> block, and the dispatcher sends nothing.
\<close>

theorem initialize_echoes_protocol_version:
  assumes "loads request_data = Some (JObj kvs)"
    and "dict_get kvs ''method'' (JStr []) = JStr ''initialize''"
  shows "(\<forall>ps. dict_get kvs ''params'' (JObj []) = JObj ps \<longrightarrow>
            handle_jsonrpc_request loads now self sid request_data =
              send_response now self sid
                (JObj [(''jsonrpc'', dict_get kvs ''jsonrpc'' (JStr ''2.0'')),
                       (''id'', dict_get kvs ''id'' JNull),
                       (''result'', JObj
                          [(''protocolVersion'',
                              (case map_of ps ''protocolVersion'' of
                                 Some v \<Rightarrow> v
                               | None \<Rightarrow> JStr ''2024-11-05'')),
                           (''capabilities'', capabilities self),
                           (''serverInfo'', server_info self)])]))
         \<and> ((\<forall>ps. dict_get kvs ''params'' (JObj []) \<noteq> JObj ps) \<longrightarrow>
            handle_jsonrpc_request loads now self sid request_data = self)"
proof (intro conjI allI impI)
  fix ps
  assume ps: "dict_get kvs ''params'' (JObj []) = JObj ps"
  have "dispatch now self sid (JObj kvs) =
      Inr (send_response now self sid
        (rpc_result (dict_get kvs ''jsonrpc'' (JStr ''2.0'')) (dict_get kvs ''id'' JNull)
           (JObj [(''protocolVersion'', dict_get ps ''protocolVersion'' (JStr ''2024-11-05'')),
                  (''capabilities'', capabilities self),
                  (''serverInfo'', server_info self)])))"
    using assms(2) ps by (simp add: dispatch_obj py_get_obj Let_def)
  then show "handle_jsonrpc_request loads now self sid request_data =
              send_response now self sid
                (JObj [(''jsonrpc'', dict_get kvs ''jsonrpc'' (JStr ''2.0'')),
                       (''id'', dict_get kvs ''id'' JNull),
                       (''result'', JObj
                          [(''protocolVersion'',
                              (case map_of ps ''protocolVersion'' of
                                 Some v \<Rightarrow> v
                               | None \<Rightarrow> JStr ''2024-11-05'')),
                           (''capabilities'', capabilities self),
                           (''serverInfo'', server_info self)])])"
    using assms(1) by (simp add: handle_jsonrpc_request_def rpc_result_def dict_get_def)
next
  assume no: "\<forall>ps. dict_get kvs ''params'' (JObj []) \<noteq> JObj ps"
  have present: "map_of kvs ''params'' \<noteq> None"
  proof
    assume "map_of kvs ''params'' = None"
    then have "dict_get kvs ''params'' (JObj []) = JObj []"
      by (simp add: dict_get_def)
    with no show False by blast
  qed
  have other: "\<forall>ps. map_of kvs ''params'' \<noteq> Some (JObj ps)"
  proof (intro allI notI)
    fix ps
    assume "map_of kvs ''params'' = Some (JObj ps)"
    then have "dict_get kvs ''params'' (JObj []) = JObj ps"
      by (simp add: dict_get_def)
    with no show False by blast
  qed
  have meth: "dict_get kvs ''method'' (JStr []) \<in> {JStr ''initialize'', JStr ''tools/run'', JStr ''tools/call''}"
    using assms(2) by simp
  show "handle_jsonrpc_request loads now self sid request_data = self"
    using assms(1) meth other present by (rule params_not_an_object_is_silent)
qed

theorem initialize_echoes_protocol_version_witness:
  "dict_get [(''jsonrpc'', JStr ''2.0''), (''id'', JInt 0), (''method'', JStr ''initialize'')]
     ''params'' (JObj []) = JObj []
   \<and> stream_of (handle_jsonrpc_request
        (loads_as (JObj [(''jsonrpc'', JStr ''2.0''), (''id'', JInt 0), (''method'', JStr ''initialize'')]))
        ''t'' plain_server ''s1'' ''body'') ''s1'' =
      Some [''data: {'' @ quoted ''jsonrpc'' @ '': '' @ quoted ''2.0'' @ '', '' @ quoted ''id'' @ '': 0, ''
            @ quoted ''result'' @ '': {'' @ quoted ''protocolVersion'' @ '': '' @ quoted ''2024-11-05''
            @ '', '' @ quoted ''capabilities'' @ '': '' @ json_dumps default_capabilities
            @ '', '' @ quoted ''serverInfo'' @ '': '' @ json_dumps default_server_info @ ''}}''
            @ CRLF @ CRLF]
   \<and> stream_of (handle_jsonrpc_request
        (loads_as (JObj [(''id'', JInt 0), (''method'', JStr ''initialize''),
                         (''params'', JObj [(''protocolVersion'', JStr ''2025-03-26'')])]))
        ''t'' plain_server ''s1'' ''body'') ''s1'' =
      Some [''data: {'' @ quoted ''jsonrpc'' @ '': '' @ quoted ''2.0'' @ '', '' @ quoted ''id'' @ '': 0, ''
            @ quoted ''result'' @ '': {'' @ quoted ''protocolVersion'' @ '': '' @ quoted ''2025-03-26''
            @ '', '' @ quoted ''capabilities'' @ '': '' @ json_dumps default_capabilities
            @ '', '' @ quoted ''serverInfo'' @ '': '' @ json_dumps default_server_info @ ''}}''
            @ CRLF @ CRLF]
   \<and> dict_get [(''id'', JInt 0), (''method'', JStr ''initialize''), (''params'', JArr [])]
     ''params'' (JObj []) = JArr []
   \<and> handle_jsonrpc_request
        (loads_as (JObj [(''id'', JInt 0), (''method'', JStr ''initialize''), (''params'', JArr [])]))
        ''t'' plain_server ''s1'' ''body'' = plain_server"
  using initialize_echoes_protocol_version
    [of "loads_as (JObj [(''jsonrpc'', JStr ''2.0''), (''id'', JInt 0), (''method'', JStr ''initialize'')])"
        "''body''"
        "[(''jsonrpc'', JStr ''2.0''), (''id'', JInt 0), (''method'', JStr ''initialize'')]"
        "''t''" plain_server "''s1''"]
    initialize_echoes_protocol_version
    [of "loads_as (JObj [(''id'', JInt 0), (''method'', JStr ''initialize''),
                         (''params'', JObj [(''protocolVersion'', JStr ''2025-03-26'')])])"
        "''body''"
        "[(''id'', JInt 0), (''method'', JStr ''initialize''),
          (''params'', JObj [(''protocolVersion'', JStr ''2025-03-26'')])]"
        "''t''" plain_server "''s1''"]
    initialize_echoes_protocol_version
    [of "loads_as (JObj [(''id'', JInt 0), (''method'', JStr ''initialize''), (''params'', JArr [])])"
        "''body''"
        "[(''id'', JInt 0), (''method'', JStr ''initialize''), (''params'', JArr [])]"
        "''t''" plain_server "''s1''"]
  by (simp add: loads_as_def dict_get_def server_defs send_response_def send_message_def sendall_def
      stream_of_def dumps_defs)

text \<open>
  C8. Parsing returns a request for every text. A request line with fewer than two
  spaces, which is every line that \<^verbatim>\<open>split(' ', 2)\<close> does not cut into three parts, gives
  the triple \<^verbatim>\<open>UNKNOWN\<close>, \<^verbatim>\<open>/\<close>, \<^verbatim>\<open>HTTP/1.1\<close>, and every other line gives its three parts.
  A header line with no colon changes nothing, so the headers are those of the lines
  that are left once such lines are taken out; a line with a colon stores the text after
  the first colon, stripped, under the text before it, stripped and in lower case; every
  name stored is in lower case.
\<close>

theorem parse_request_never_fails:
  "(\<exists>r. parse_request request_text = Some r
       \<and> (req_method r, req_path r, req_version r) = parse_request_line (hd (py_split request_text CRLF))
       \<and> req_headers r = parse_headers (tl (py_split request_text CRLF)) Map.empty)
   \<and> (length (filter (\<lambda>x. x = CHR '' '') line) < 2 \<longrightarrow>
        parse_request_line line = (''UNKNOWN'', ''/'', ''HTTP/1.1''))
   \<and> (CHR '' '' \<notin> set m \<and> CHR '' '' \<notin> set p \<longrightarrow>
        parse_request_line (m @ '' '' @ p @ '' '' @ v) = (m, p, v))
   \<and> (line \<noteq> [] \<and> CHR '':'' \<notin> set line \<longrightarrow>
        parse_headers (line # rest) hs = parse_headers rest hs)
   \<and> (CHR '':'' \<notin> set k \<longrightarrow>
        parse_headers ((k @ '':'' @ v) # rest) hs =
          parse_headers rest (hs(py_lower (py_strip k) \<mapsto> py_strip v)))
   \<and> parse_headers ls hs = parse_headers (filter (\<lambda>l. l = [] \<or> CHR '':'' \<in> set l) ls) hs
   \<and> (\<forall>key \<in> dom (parse_headers ls Map.empty). py_lower key = key)"
proof (intro conjI impI ballI)
  show "\<exists>r. parse_request request_text = Some r
       \<and> (req_method r, req_path r, req_version r) = parse_request_line (hd (py_split request_text CRLF))
       \<and> req_headers r = parse_headers (tl (py_split request_text CRLF)) Map.empty"
    by (rule parse_request_Some)
next
  assume "length (filter (\<lambda>x. x = CHR '' '') line) < 2"
  then show "parse_request_line line = (''UNKNOWN'', ''/'', ''HTTP/1.1'')"
    by (rule request_line_few_spaces)
next
  assume "CHR '' '' \<notin> set m \<and> CHR '' '' \<notin> set p"
  then have "parse_request_line (m @ CHR '' '' # p @ CHR '' '' # v) = (m, p, v)"
    using request_line_three_parts [of m p v] by (elim conjE)
  then show "parse_request_line (m @ '' '' @ p @ '' '' @ v) = (m, p, v)"
    by simp
next
  assume "line \<noteq> [] \<and> CHR '':'' \<notin> set line"
  then show "parse_headers (line # rest) hs = parse_headers rest hs"
    using header_line_without_colon [of line rest hs] by (elim conjE)
next
  assume "CHR '':'' \<notin> set k"
  then have "parse_headers ((k @ CHR '':'' # v) # rest) hs =
          parse_headers rest (hs(py_lower (py_strip k) \<mapsto> py_strip v))"
    by (rule header_line_with_colon)
  then show "parse_headers ((k @ '':'' @ v) # rest) hs =
          parse_headers rest (hs(py_lower (py_strip k) \<mapsto> py_strip v))"
    by simp
next
  show "parse_headers ls hs = parse_headers (filter (\<lambda>l. l = [] \<or> CHR '':'' \<in> set l) ls) hs"
    by (rule parse_headers_skips)
next
  fix key
  assume "key \<in> dom (parse_headers ls Map.empty)"
  from parse_headers_keys [OF this] show "py_lower key = key"
    by simp
qed

theorem parse_request_never_fails_witness:
  "length (filter (\<lambda>x. x = CHR '' '') ''GET /sse'') < 2
   \<and> parse_request_line ''GET /sse'' = (''UNKNOWN'', ''/'', ''HTTP/1.1'')
   \<and> ''junk'' \<noteq> [] \<and> CHR '':'' \<notin> set ''junk''
   \<and> parse_headers [''junk'', ''X-Key:  v ''] Map.empty = parse_headers [''X-Key:  v ''] Map.empty
   \<and> map_option (\<lambda>r. (req_method r, req_path r, req_version r,
                        req_headers r ''host'', req_headers r ''x-key'', req_body r))
        (parse_request (''GET /sse'' @ CRLF @ ''Host: A'' @ CRLF @ ''junk'' @ CRLF @ ''X-Key:  v ''
                        @ CRLF @ CRLF @ ''{}'')) =
      Some (''UNKNOWN'', ''/'', ''HTTP/1.1'', Some ''A'', Some ''v'', ''{}'')"
  using parse_request_never_fails
    [of "''GET /sse'' @ CRLF @ ''Host: A'' @ CRLF @ ''junk'' @ CRLF @ ''X-Key:  v '' @ CRLF @ CRLF @ ''{}''"
        "''junk''" "''GET''" "''/sse''" "''HTTP/1.1''" "[''X-Key:  v '']" Map.empty "''X-Key''"
        "[''junk'', ''X-Key:  v '']"]
  by (simp add: text_defs parse_defs py_split_max_two)

lemma notification_initialized_is_silent:
  assumes "loads request_data = Some (JObj kvs)"
    and "dict_get kvs ''method'' (JStr []) = JStr ''notifications/initialized''"
  shows "handle_jsonrpc_request loads now self sid request_data = self"
  using assms by (simp add: handle_jsonrpc_request_def dispatch_obj Let_def)

lemma unknown_method_without_id_is_silent:
  assumes "loads request_data = Some (JObj kvs)"
    and "dict_get kvs ''method'' (JStr []) = JStr m"
    and "m \<notin> {''initialize'', ''notifications/initialized'', ''tools/list'', ''tools/run'', ''tools/call''}"
    and "map_of kvs ''id'' = None"
  shows "handle_jsonrpc_request loads now self sid request_data = self"
  using assms by (simp add: handle_jsonrpc_request_def dispatch_obj Let_def dict_get_def)

lemma recognized_method_without_id_is_answered:
  assumes "loads request_data = Some (JObj kvs)"
    and "dict_get kvs ''method'' (JStr []) = JStr ''tools/list''"
    and "map_of kvs ''id'' = None"
  shows "handle_jsonrpc_request loads now self sid request_data =
           send_response now self sid
             (JObj [(''jsonrpc'', dict_get kvs ''jsonrpc'' (JStr ''2.0'')),
                    (''id'', JNull),
                    (''result'', JObj [(''tools'', JArr (map tool_entry (tool_handlers self)))])])"
  using assms by (simp add: handle_jsonrpc_request_def dispatch_obj Let_def dict_get_def rpc_result_def)

text \<open>
  C1. The claim fails on the code: a \<^verbatim>\<open>tools/list\<close> request with no \<^verbatim>\<open>id\<close> is answered. On
  the server with one open session and no tools, the request
  \<^verbatim>\<open>{"jsonrpc": "2.0", "method": "tools/list"}\<close> puts one frame on the session's stream, a
  response whose \<^verbatim>\<open>id\<close> is \<^verbatim>\<open>null\<close>; an \<^verbatim>\<open>initialize\<close> request with no \<^verbatim>\<open>id\<close> is answered
  likewise, while \<^verbatim>\<open>notifications/initialized\<close> and an unknown method leave the stream empty.
\<close>

theorem request_without_id_is_answered:
  "stream_of (handle_jsonrpc_request
      (\<lambda>d. Some (JObj [(''jsonrpc'', JStr ''2.0''), (''method'', JStr ''tools/list'')]))
      now plain_server ''s1'' request_data) ''s1'' =
    Some [''data: {'' @ quoted ''jsonrpc'' @ '': '' @ quoted ''2.0'' @ '', '' @ quoted ''id'' @ '': null, ''
          @ quoted ''result'' @ '': {'' @ quoted ''tools'' @ '': []}}'' @ CRLF @ CRLF]
   \<and> stream_of (handle_jsonrpc_request
      (\<lambda>d. Some (JObj [(''jsonrpc'', JStr ''2.0''), (''method'', JStr ''initialize'')]))
      now plain_server ''s1'' request_data) ''s1'' =
    Some [''data: {'' @ quoted ''jsonrpc'' @ '': '' @ quoted ''2.0'' @ '', '' @ quoted ''id'' @ '': null, ''
          @ quoted ''result'' @ '': {'' @ quoted ''protocolVersion'' @ '': '' @ quoted ''2024-11-05''
          @ '', '' @ quoted ''capabilities'' @ '': '' @ json_dumps default_capabilities
          @ '', '' @ quoted ''serverInfo'' @ '': '' @ json_dumps default_server_info @ ''}}''
          @ CRLF @ CRLF]
   \<and> stream_of (handle_jsonrpc_request
      (\<lambda>d. Some (JObj [(''jsonrpc'', JStr ''2.0''), (''method'', JStr ''notifications/initialized'')]))
      now plain_server ''s1'' request_data) ''s1'' = Some []
   \<and> stream_of (handle_jsonrpc_request
      (\<lambda>d. Some (JObj [(''jsonrpc'', JStr ''2.0''), (''method'', JStr ''notifications/cancelled'')]))
      now plain_server ''s1'' request_data) ''s1'' = Some []"
  by (simp add: handle_jsonrpc_request_def dispatch_obj Let_def dict_get_def rpc_result_def py_get_def
      server_defs send_response_def send_message_def sendall_def stream_of_def dumps_defs)

text \<open>
  C2. The claim fails on the code: the handler answers 400 only when the path holds no
  \<^verbatim>\<open>?\<close> at all. A path with a query string in which \<^verbatim>\<open>parse_qs\<close> finds no \<^verbatim>\<open>session_id\<close>
  is answered with the 404 response \<^verbatim>\<open>Invalid session\<close>, whatever the headers and the
  body, and the server is left as it was.
\<close>

theorem query_without_session_id_is_404:
  assumes "py_find path ''?'' \<noteq> - 1"
    and "parse_qs (drop (nat (py_find path ''?'' + 1)) path) ''session_id'' = None"
  shows "messages_response loads parse_qs now self path headers body = (self, response_404)
         \<and> handle_messages_request loads parse_qs now self open_sock path headers body =
             (self, Inr \<lparr>sock_connected = True, sock_closed = True, sock_sent = [response_404]\<rparr>)
         \<and> take 22 response_404 = ''HTTP/1.1 404 Not Found''"
proof -
  have one: "messages_response loads parse_qs now self path headers body = (self, response_404)"
    using assms by (simp add: messages_response_def Let_def)
  have two: "handle_messages_request loads parse_qs now self open_sock path headers body =
             (self, Inr \<lparr>sock_connected = True, sock_closed = True, sock_sent = [response_404]\<rparr>)"
    by (simp add: handle_messages_request_def one Let_def sendall_def open_sock_def sock_close_def)
  have three: "take 22 response_404 = ''HTTP/1.1 404 Not Found''"
    by (simp add: response_404_def)
  from one two three show ?thesis by simp
qed

theorem query_without_session_id_is_404_witness:
  "py_find ''/messages/?foo=1'' ''?'' = 10
   \<and> drop (nat (py_find ''/messages/?foo=1'' ''?'' + 1)) ''/messages/?foo=1'' = ''foo=1''
   \<and> messages_response (\<lambda>d. None) (\<lambda>q. [''foo'' \<mapsto> [''1'']]) ''t'' plain_server ''/messages/?foo=1''
        [''content-type'' \<mapsto> ''application/json''] ''{}'' = (plain_server, response_404)"
  using query_without_session_id_is_404
    [of "''/messages/?foo=1''" "\<lambda>q. [''foo'' \<mapsto> [''1'']]" "\<lambda>d. None" "''t''" plain_server
        "[''content-type'' \<mapsto> ''application/json'']" "''{}''"]
  by (simp add: py_find_def)

end
